theory Spec2Isabelle
  imports Complex_Main "HOL-Library.Word"
begin

section \<open>Plume configuration (src/lib/diffusion.js)\<close>

text \<open>
  JavaScript numbers are modelled as real numbers: the rounding of doubles and NaN are
  not part of the model. The functions of the tick are given twice: first over the
  exact values, then, in the section on the pool as stored, with every write to the
  \<^verbatim>\<open>Float32Array\<close> pools rounded to single precision. An argument that is
  \<^verbatim>\<open>undefined\<close> is \<open>None\<close>.
\<close>

definition maxParticles :: nat where
  "maxParticles = 1000"

record plumeConfig =
  spawnRate :: real
  spawnRateMultiplier :: real
  lifeSeconds :: real
  maxActive :: real
  alphaCurveExp :: real
  sizeCurveExp :: real
  minAlpha :: real
  enabled :: bool
  baselineEmissionRate :: real
  ageSpreadStrength :: real
  cellSize :: real
  maxPerCell :: real
  suppressionProbability :: real

text \<open>The object literal \<^verbatim>\<open>plumeConfig\<close> of lines 284-299.\<close>

definition plumeConfig0 :: plumeConfig where
  "plumeConfig0 = \<lparr> spawnRate = 6, spawnRateMultiplier = 1, lifeSeconds = 21 / 10,
     maxActive = of_int \<lfloor>real maxParticles * (35 / 100)\<rfloor>,
     alphaCurveExp = 12 / 10, sizeCurveExp = 12 / 10, minAlpha = 0, enabled = True,
     baselineEmissionRate = 0, ageSpreadStrength = 18 / 100, cellSize = 18 / 100,
     maxPerCell = 14, suppressionProbability = 7 / 10 \<rparr>"

text \<open>The destructured argument object of \<^verbatim>\<open>setPlumeConfig\<close>.\<close>

record configArgs =
  arg_spawnRate :: "real option"
  arg_spawnRateMultiplier :: "real option"
  arg_lifeSeconds :: "real option"
  arg_maxActive :: "real option"
  arg_alphaCurveExp :: "real option"
  arg_sizeCurveExp :: "real option"
  arg_minAlpha :: "real option"
  arg_enabled :: "bool option"
  arg_baselineEmissionRate :: "real option"
  arg_ageSpreadStrength :: "real option"
  arg_cellSize :: "real option"
  arg_maxPerCell :: "real option"
  arg_suppressionProbability :: "real option"
  arg_requireIndicator :: "bool option"

definition noArgs :: configArgs where
  "noArgs = \<lparr> arg_spawnRate = None, arg_spawnRateMultiplier = None, arg_lifeSeconds = None,
     arg_maxActive = None, arg_alphaCurveExp = None, arg_sizeCurveExp = None,
     arg_minAlpha = None, arg_enabled = None, arg_baselineEmissionRate = None,
     arg_ageSpreadStrength = None, arg_cellSize = None, arg_maxPerCell = None,
     arg_suppressionProbability = None, arg_requireIndicator = None \<rparr>"

text \<open>\<^verbatim>\<open>if (v !== undefined) field = f(v)\<close>.\<close>

definition upd :: "'a option \<Rightarrow> ('a \<Rightarrow> 'b) \<Rightarrow> 'b \<Rightarrow> 'b" where
  "upd a f old = (case a of None \<Rightarrow> old | Some v \<Rightarrow> f v)"

text \<open>Lines 635-647: the writes of \<^verbatim>\<open>setPlumeConfig\<close> to \<^verbatim>\<open>plumeConfig\<close>.\<close>

definition setConfigFields :: "configArgs \<Rightarrow> plumeConfig \<Rightarrow> plumeConfig" where
  "setConfigFields a c = c\<lparr>
     spawnRate := upd (arg_spawnRate a) (max 0) (spawnRate c),
     spawnRateMultiplier := upd (arg_spawnRateMultiplier a) (max 0) (spawnRateMultiplier c),
     lifeSeconds := upd (arg_lifeSeconds a) (max (5 / 100)) (lifeSeconds c),
     maxActive := upd (arg_maxActive a) (\<lambda>v. min (real maxParticles) (max 0 v)) (maxActive c),
     alphaCurveExp := upd (arg_alphaCurveExp a) (max (1 / 100)) (alphaCurveExp c),
     sizeCurveExp := upd (arg_sizeCurveExp a) (max (1 / 100)) (sizeCurveExp c),
     minAlpha := upd (arg_minAlpha a) (\<lambda>v. min 1 (max 0 v)) (minAlpha c),
     enabled := upd (arg_enabled a) (\<lambda>v. v) (enabled c),
     baselineEmissionRate := upd (arg_baselineEmissionRate a) (max 0) (baselineEmissionRate c),
     ageSpreadStrength := upd (arg_ageSpreadStrength a) (max 0) (ageSpreadStrength c),
     cellSize := upd (arg_cellSize a) (max (1 / 100)) (cellSize c),
     maxPerCell := upd (arg_maxPerCell a) (max 1) (maxPerCell c),
     suppressionProbability :=
       upd (arg_suppressionProbability a) (\<lambda>v. min 1 (max 0 v)) (suppressionProbability c) \<rparr>"


section \<open>State of the diffusion manager\<close>

text \<open>
  The closure variables of \<^verbatim>\<open>createDiffusionManager\<close>. The parallel typed arrays
  \<^verbatim>\<open>positions\<close>, \<^verbatim>\<open>velocities\<close>, \<^verbatim>\<open>life\<close>, \<^verbatim>\<open>drifts\<close>, \<^verbatim>\<open>expandDirs\<close>,
  \<^verbatim>\<open>colors\<close>, \<^verbatim>\<open>gate\<close>, \<^verbatim>\<open>fadeTimers\<close> and \<^verbatim>\<open>fadeDurations\<close> are read and written
  slot by slot only, so the pool is a list with one record per slot: slot \<open>i\<close> holds
  \<^verbatim>\<open>positions[3i..3i+2]\<close>, \<^verbatim>\<open>velocities[3i..3i+2]\<close>, \<^verbatim>\<open>life[i]\<close>, \<^verbatim>\<open>drifts[2i..2i+1]\<close>,
  \<^verbatim>\<open>expandDirs[2i..2i+1]\<close>, \<^verbatim>\<open>colors[3i..3i+2]\<close>, \<^verbatim>\<open>gate[i]\<close>, \<^verbatim>\<open>fadeTimers[i]\<close> and
  \<^verbatim>\<open>fadeDurations[i]\<close>.
\<close>

record slot =
  px :: real
  py :: real
  pz :: real
  vx :: real
  vy :: real
  vz :: real
  life :: real
  driftX :: real
  driftZ :: real
  expandX :: real
  expandZ :: real
  colR :: real
  colG :: real
  colB :: real
  gate :: real
  fadeTimer :: real
  fadeDuration :: real

definition slot0 :: slot where
  "slot0 = \<lparr> px = 0, py = 0, pz = 0, vx = 0, vy = 0, vz = 0, life = 0, driftX = 0, driftZ = 0,
     expandX = 0, expandZ = 0, colR = 0, colG = 0, colB = 0, gate = 0, fadeTimer = 0,
     fadeDuration = 0 \<rparr>"

text \<open>
  A spawn queue entry \<^verbatim>\<open>{ x, z, count, bottom, style, rgb }\<close>; \<^verbatim>\<open>style\<close> is absent and
  \<^verbatim>\<open>rgb\<close> is null for a surface request.
\<close>

record style =
  ignoreIndicator :: bool
  saturation :: real
  opacity :: real
  brightness :: real

record request =
  req_x :: real
  req_z :: real
  req_count :: int
  req_bottom :: bool
  req_style :: "style option"
  req_rgb :: "(real \<times> real \<times> real) option"

text \<open>
  The water uniforms bound by \<^verbatim>\<open>bindUniforms\<close> (\<open>None\<close> while \<^verbatim>\<open>waterUniforms\<close> is
  null, and for a missing \<^verbatim>\<open>uIndicatorEnabled\<close> entry).
\<close>

record waterUniforms =
  uGlobalConc :: real
  uIndicatorEnabled :: "real option"

text \<open>
  The uniforms of the point cloud's material that the configuration writes. The other
  uniforms (opacity, saturation, brightness, override colour) are written for the
  renderer and read by no branch of the simulation; they are left out.
\<close>

record uniforms =
  uRequireIndicator :: real
  uLifePow :: real
  uAlphaPow :: real
  uMinAlpha :: real

text \<open>
  \<^verbatim>\<open>Math.random()\<close> is an oracle: \<open>rnd s k\<close> is the value of the \<open>k\<close>-th call and
  \<open>rndi s\<close> counts the calls made so far.
\<close>

record diffusion =
  beakerRadius :: real
  waterSurfaceY :: real
  waterHeight :: real
  water :: "waterUniforms option"
  diffuseAccum :: real
  concAccum :: real
  lastMean :: real
  particles :: "slot list"
  points :: "uniforms option"
  config :: plumeConfig
  bottomInjecting :: bool
  spawnQueue :: "request list"
  bottomPlumeDisabled :: bool
  bottomPlumeOffset :: "real \<times> real"
  debugForce :: bool
  debugT :: real
  spawnAccum :: real
  rnd :: "nat \<Rightarrow> real"
  rndi :: nat

definition createDiffusionManager :: "real \<Rightarrow> real \<Rightarrow> real \<Rightarrow> (nat \<Rightarrow> real) \<Rightarrow> diffusion" where
  "createDiffusionManager radius surfaceY height oracle =
     \<lparr> beakerRadius = radius, waterSurfaceY = surfaceY, waterHeight = height, water = None,
       diffuseAccum = 0, concAccum = 0, lastMean = 0,
       particles = replicate maxParticles slot0, points = None, config = plumeConfig0,
       bottomInjecting = False, spawnQueue = [], bottomPlumeDisabled = False,
       bottomPlumeOffset = (0, 0), debugForce = False, debugT = 0, spawnAccum = 0,
       rnd = oracle, rndi = 0 \<rparr>"

definition bindUniforms :: "waterUniforms option \<Rightarrow> diffusion \<Rightarrow> diffusion" where
  "bindUniforms w s = s\<lparr>water := w\<rparr>"

definition isIndicatorEnabled :: "diffusion \<Rightarrow> bool" where
  "isIndicatorEnabled s =
     (case water s of None \<Rightarrow> False
      | Some w \<Rightarrow> (case uIndicatorEnabled w of None \<Rightarrow> False | Some v \<Rightarrow> v > 5 / 10))"

definition uniforms0 :: uniforms where
  "uniforms0 = \<lparr> uRequireIndicator = 1, uLifePow = 12 / 10, uAlphaPow = 12 / 10, uMinAlpha = 0 \<rparr>"

definition ensurePoints :: "diffusion \<Rightarrow> diffusion" where
  "ensurePoints s = (case points s of Some u \<Rightarrow> s | None \<Rightarrow> s\<lparr>points := Some uniforms0\<rparr>)"

definition applyPlumeUniforms :: "diffusion \<Rightarrow> diffusion" where
  "applyPlumeUniforms s =
     (case points s of None \<Rightarrow> s
      | Some u \<Rightarrow> s\<lparr>points := Some (u\<lparr>uLifePow := sizeCurveExp (config s),
          uAlphaPow := alphaCurveExp (config s), uMinAlpha := minAlpha (config s)\<rparr>)\<rparr>)"

definition setPlumeConfig :: "configArgs \<Rightarrow> diffusion \<Rightarrow> diffusion" where
  "setPlumeConfig a s =
     (let s1 = s\<lparr>config := setConfigFields a (config s)\<rparr>;
          s2 = (case (arg_requireIndicator a, points s1) of
                  (Some b, Some u) \<Rightarrow>
                    s1\<lparr>points := Some (u\<lparr>uRequireIndicator := (if b then 1 else 0)\<rparr>)\<rparr>
                | _ \<Rightarrow> s1)
      in applyPlumeUniforms (ensurePoints s2))"

section \<open>Indicator field: \<^verbatim>\<open>step\<close>\<close>

text \<open>
  The canvas is the browser's: its blur and decay are not modelled. What \<^verbatim>\<open>step\<close>
  reads back from it, the RGBA bytes of \<^verbatim>\<open>getImageData\<close>, is an input of the model.
  \<open>greenSum\<close> is the loop \<^verbatim>\<open>for (i = 0; i < data.length; i += 4) sum += data[i + 1]\<close>.
\<close>

definition indicatorSize :: nat where
  "indicatorSize = 256"

fun greenSum :: "8 word list \<Rightarrow> nat" where
  "greenSum (r # g # b # a # rest) = unat g + greenSum rest"
| "greenSum _ = 0"

definition imageMean :: "8 word list \<Rightarrow> real" where
  "imageMean img = real (greenSum img) / (255 * real (indicatorSize * indicatorSize))"

text \<open>The throttle of line 112: does this call run a tick?\<close>

definition stepExecutes :: "real \<Rightarrow> diffusion \<Rightarrow> bool" where
  "stepExecutes dt s = (\<not> diffuseAccum s + dt < 1 / 30)"

text \<open>The value of \<^verbatim>\<open>mean\<close> at line 145 on an executed tick.\<close>

definition tickMean :: "real \<Rightarrow> 8 word list \<Rightarrow> diffusion \<Rightarrow> real" where
  "tickMean dt img s =
     (if concAccum s + (diffuseAccum s + dt) \<ge> 25 / 100 then imageMean img else lastMean s)"

definition tickTarget :: "real \<Rightarrow> 8 word list \<Rightarrow> diffusion \<Rightarrow> real" where
  "tickTarget dt img s = min 1 (tickMean dt img s * (25 / 10))"

definition step :: "real \<Rightarrow> 8 word list \<Rightarrow> diffusion \<Rightarrow> diffusion" where
  "step dt img s =
     (let acc = diffuseAccum s + dt in
      if acc < 1 / 30 then s\<lparr>diffuseAccum := acc\<rparr>
      else
        let dtStep = acc;
            s1 = s\<lparr>diffuseAccum := 0, concAccum := concAccum s + dtStep\<rparr>;
            s2 = (if concAccum s1 \<ge> 25 / 100
                  then s1\<lparr>concAccum := 0, lastMean := imageMean img\<rparr> else s1);
            mean = lastMean s2;
            target = min 1 (mean * (25 / 10))
        in case water s2 of
             None \<Rightarrow> s2
           | Some w \<Rightarrow>
               if mean > 1 / 100
               then s2\<lparr>water := Some (w\<lparr>uGlobalConc :=
                      uGlobalConc w * (985 / 1000) + target * (1 - 985 / 1000)\<rparr>)\<rparr>
               else s2\<lparr>water := Some (w\<lparr>uGlobalConc :=
                      max (uGlobalConc w * (999 / 1000)) target\<rparr>)\<rparr>)"

text \<open>The derived global concentration; 0 while no uniforms are bound.\<close>

definition globalConcentration :: "diffusion \<Rightarrow> real" where
  "globalConcentration s = (case water s of None \<Rightarrow> 0 | Some w \<Rightarrow> uGlobalConc w)"


section \<open>Plume particles: spawning\<close>

definition alive :: "slot \<Rightarrow> bool" where
  "alive p = (life p > 0)"

text \<open>\<^verbatim>\<open>getPlumeStats().active\<close>, and the count of the first loop of \<^verbatim>\<open>spawnParticle\<close>.\<close>

definition activeCount :: "diffusion \<Rightarrow> nat" where
  "activeCount s = length (filter alive (particles s))"

text \<open>The first index whose \<^verbatim>\<open>life\<close> is not positive (\<^verbatim>\<open>idx\<close>); \<open>None\<close> is \<^verbatim>\<open>-1\<close>.\<close>

fun firstFree :: "slot list \<Rightarrow> nat option" where
  "firstFree [] = None"
| "firstFree (p # ps) = (if life p > 0 then map_option Suc (firstFree ps) else Some 0)"

text \<open>
  Lines 322-351: the values written to the chosen slot. Nine calls of
  \<^verbatim>\<open>Math.random()\<close> are made, in the order of the source.
\<close>

definition newParticle :: "diffusion \<Rightarrow> real \<Rightarrow> real \<Rightarrow> real \<times> real \<times> real \<Rightarrow> bool \<Rightarrow> slot" where
  "newParticle s localX localZ rgb gated =
     (let r = (\<lambda>n. rnd s (rndi s + n));
          spread = (if bottomInjecting s then 16 / 100 else 9 / 100);
          waterBottomY = waterSurfaceY s - waterHeight s;
          theta = r 3 * pi * 2;
          speed = 2 / 10 + r 4 * (5 / 10);
          driftTheta = r 6 * pi * 2;
          driftSpeed = 2 / 100 + r 7 * (3 / 100);
          expTheta = r 8 * pi * 2
      in \<lparr> px = localX + (r 0 - 1 / 2) * spread,
           py = (if bottomInjecting s then (waterBottomY + 4 / 100) + r 1 * (5 / 100)
                 else waterSurfaceY s - 18 / 100 - r 1 * (12 / 100)),
           pz = localZ + (r 2 - 1 / 2) * spread,
           vx = cos theta * speed,
           vy = - (1 / 100) + r 5 * (5 / 100),
           vz = sin theta * speed,
           life = 1,
           driftX = cos driftTheta * driftSpeed,
           driftZ = sin driftTheta * driftSpeed,
           expandX = cos expTheta,
           expandZ = sin expTheta,
           colR = fst rgb, colG = fst (snd rgb), colB = snd (snd rgb),
           gate = (if gated then 1 else 0),
           fadeTimer = 0, fadeDuration = 0 \<rparr>)"

definition spawnParticle :: "real \<Rightarrow> real \<Rightarrow> real \<times> real \<times> real \<Rightarrow> bool \<Rightarrow> diffusion \<Rightarrow> diffusion" where
  "spawnParticle localX localZ rgb gated s =
     (if \<not> enabled (config s) then s
      else if real (activeCount s) \<ge> maxActive (config s) then s
      else case firstFree (particles s) of
             None \<Rightarrow> s
           | Some idx \<Rightarrow>
               s\<lparr>particles := (particles s)[idx := newParticle s localX localZ rgb gated],
                 rndi := rndi s + 9\<rparr>)"

section \<open>Spawn queue\<close>

definition addSource :: "real \<Rightarrow> real \<Rightarrow> int \<Rightarrow> diffusion \<Rightarrow> diffusion" where
  "addSource localX localZ n s =
     (let s1 = ensurePoints s
      in s1\<lparr>spawnQueue := spawnQueue s1 @
           [\<lparr> req_x = localX, req_z = localZ, req_count = n, req_bottom = False,
              req_style = None, req_rgb = None \<rparr>]\<rparr>)"

text \<open>
  \<^verbatim>\<open>addBottomSource\<close>: \<open>rgb\<close> is the linear colour \<^verbatim>\<open>[c.r, c.g, c.b]\<close> that the
  rendering library's \<^verbatim>\<open>Color\<close> makes of the hex colour.
\<close>

definition addBottomSource ::
  "real \<Rightarrow> real \<Rightarrow> int \<Rightarrow> real \<times> real \<times> real \<Rightarrow> style \<Rightarrow> diffusion \<Rightarrow> diffusion" where
  "addBottomSource localX localZ n rgb st s =
     (if bottomPlumeDisabled s then s
      else
        let s1 = ensurePoints s;
            ox = localX + fst (bottomPlumeOffset s1);
            oz = localZ + snd (bottomPlumeOffset s1)
        in s1\<lparr>spawnQueue := spawnQueue s1 @
             [\<lparr> req_x = ox, req_z = oz, req_count = n, req_bottom = True,
                req_style = Some st, req_rgb = Some rgb \<rparr>]\<rparr>)"

text \<open>
  The backwards \<^verbatim>\<open>splice\<close> loop of line 385 removes exactly the entries whose
  \<^verbatim>\<open>bottom\<close> is set and keeps the others in order.
\<close>

definition disableBottomPlumes :: "bool \<Rightarrow> diffusion \<Rightarrow> diffusion" where
  "disableBottomPlumes clearExistingQueue s =
     (let s1 = s\<lparr>bottomPlumeDisabled := True\<rparr>
      in if clearExistingQueue
         then s1\<lparr>spawnQueue := filter (\<lambda>q. \<not> req_bottom q) (spawnQueue s1)\<rparr>
         else s1)"

definition enableBottomPlumes :: "diffusion \<Rightarrow> diffusion" where
  "enableBottomPlumes s = s\<lparr>bottomPlumeDisabled := False\<rparr>"

section \<open>Plume particles: \<^verbatim>\<open>update\<close>\<close>

subsection \<open>Density grid\<close>

definition gridDim :: "diffusion \<Rightarrow> nat" where
  "gridDim s = nat (max 1 \<lceil>(beakerRadius s * 2) / cellSize (config s)\<rceil>)"

definition gridIndex :: "diffusion \<Rightarrow> real \<Rightarrow> real \<Rightarrow> nat" where
  "gridIndex s x z =
     (let gDim = int (gridDim s);
          gridCell = cellSize (config s);
          half = beakerRadius s;
          gx = min (gDim - 1) (max 0 \<lfloor>(x + half) / gridCell\<rfloor>);
          gz = min (gDim - 1) (max 0 \<lfloor>(z + half) / gridCell\<rfloor>)
      in nat (gz * gDim + gx))"

text \<open>\<^verbatim>\<open>if (gCounts[gi] < 65535) gCounts[gi]++\<close> on the \<^verbatim>\<open>Uint16Array\<close>.\<close>

definition bump :: "nat list \<Rightarrow> nat \<Rightarrow> nat list" where
  "bump g gi = (if g ! gi < 65535 then g[gi := g ! gi + 1] else g)"

definition buildGrid :: "diffusion \<Rightarrow> nat list" where
  "buildGrid s =
     foldl (\<lambda>g p. if life p \<le> 0 then g else bump g (gridIndex s (px p) (pz p)))
       (replicate (gridDim s * gridDim s) 0) (particles s)"

subsection \<open>Spawn budget and queue drain\<close>

text \<open>
  Lines 428-431, from the accumulator after \<^verbatim>\<open>_spawnAccum += spawnPerSecond * dt\<close>
  and the queue length: the budget and the accumulator left.
\<close>

definition spawnBudget :: "real \<Rightarrow> nat \<Rightarrow> int \<times> real" where
  "spawnBudget acc qlen =
     (let budget = \<lfloor>acc\<rfloor>;
          acc1 = (if budget > 0 then acc - of_int budget else acc)
      in if budget = 0 \<and> qlen > 0 then (1, 0) else (budget, acc1))"

text \<open>
  The loop \<^verbatim>\<open>while (budget > 0 && spawnQueue.length > 0)\<close>; every round
  (\<open>drainStep\<close>, lines 433-494) takes one from the budget. The style override of a
  bottom request writes render-only uniforms and restores them after the spawn;
  \<^verbatim>\<open>_bottomInjecting\<close> is what the spawn reads.
\<close>

definition drainStep :: "request \<Rightarrow> request list \<Rightarrow> nat list \<Rightarrow> diffusion \<Rightarrow> nat list \<times> diffusion" where
  "drainStep req rest g s =
     (let s1 = (if req_bottom req then s\<lparr>bottomInjecting := True\<rparr> else s);
          rgb = (case req_rgb req of Some c \<Rightarrow> c | None \<Rightarrow> (1, 1, 1));
          gated = (\<not> req_bottom req);
          thin = (real (activeCount s1) > maxActive (config s1) * (85 / 100));
          allow1 = (\<not> (thin \<and> rnd s1 (rndi s1) < 5 / 10));
          s2 = (if thin then s1\<lparr>rndi := rndi s1 + 1\<rparr> else s1);
          gi = gridIndex s2 (req_x req) (req_z req);
          crowded = (allow1 \<and> real (g ! gi) \<ge> maxPerCell (config s2));
          allow = (allow1 \<and>
             \<not> (crowded \<and> rnd s2 (rndi s2) < suppressionProbability (config s2)));
          s3 = (if crowded then s2\<lparr>rndi := rndi s2 + 1\<rparr> else s2);
          s4 = (if allow then spawnParticle (req_x req) (req_z req) rgb gated s3 else s3);
          g1 = (if allow then bump g gi else g);
          s5 = (if req_bottom req then s4\<lparr>bottomInjecting := False\<rparr> else s4);
          q1 = (if req_count req - 1 \<le> 0 then rest
                else req\<lparr>req_count := req_count req - 1\<rparr> # rest)
      in (g1, s5\<lparr>spawnQueue := q1\<rparr>))"

fun drain :: "nat \<Rightarrow> nat list \<Rightarrow> diffusion \<Rightarrow> nat list \<times> diffusion" where
  "drain 0 g s = (g, s)"
| "drain (Suc budget) g s =
     (case spawnQueue s of
        [] \<Rightarrow> (g, s)
      | req # rest \<Rightarrow> (case drainStep req rest g s of (g1, s1) \<Rightarrow> drain budget g1 s1))"

text \<open>
  Lines 424-427: the accumulator after \<^verbatim>\<open>_spawnAccum += spawnPerSecond * dt\<close>, with
  the random factor between 0.9 and 1.1; and the budget of lines 428-431.
\<close>

definition tickAccum :: "real \<Rightarrow> diffusion \<Rightarrow> real" where
  "tickAccum dt s =
     (let spawnPerSecond = spawnRate (config s) * spawnRateMultiplier (config s)
                             * (9 / 10 + rnd s (rndi s) * (2 / 10))
      in spawnAccum s + spawnPerSecond * dt)"

definition tickBudget :: "real \<Rightarrow> diffusion \<Rightarrow> int" where
  "tickBudget dt s = fst (spawnBudget (tickAccum dt s) (length (spawnQueue s)))"

definition spawnPhase :: "real \<Rightarrow> diffusion \<Rightarrow> diffusion" where
  "spawnPhase dt s =
     (let grid = buildGrid s;
          (budget, acc1) = spawnBudget (tickAccum dt s) (length (spawnQueue s));
          s1 = s\<lparr>rndi := rndi s + 1, spawnAccum := acc1\<rparr>
      in snd (drain (nat budget) grid s1))"

subsection \<open>Integration pass\<close>

definition hypot :: "real \<Rightarrow> real \<Rightarrow> real" where
  "hypot a b = sqrt (a * a + b * b)"

text \<open>
  Lines 527-536 on one slot: ageing, the clamp at 0, and the fade of an ungated slot
  whose \<^verbatim>\<open>fadeDurations\<close> entry is set. The result is the new \<^verbatim>\<open>life\<close>, \<^verbatim>\<open>fadeTimers\<close>
  and \<^verbatim>\<open>fadeDurations\<close> entries.
\<close>

definition ageLife :: "real \<Rightarrow> real \<Rightarrow> slot \<Rightarrow> real \<times> real \<times> real" where
  "ageLife lifeSec dt p =
     (let l1 = life p - dt / lifeSec;
          l2 = (if l1 < 0 then 0 else l1)
      in if gate p < 5 / 10 \<and> fadeDuration p > 0
         then
           let ft = fadeTimer p + dt;
               k = min 1 (ft / fadeDuration p);
               fadeLife = 1 - k;
               l3 = (if l2 > fadeLife then fadeLife else l2)
           in if k \<ge> 1 then (0, ft, 0) else (l3, ft, fadeDuration p)
         else (l2, fadeTimer p, fadeDuration p))"

text \<open>
  Lines 500-512: the XZ position after velocity, drift and the age-based radial
  expansion.
\<close>

definition movedXZ :: "diffusion \<Rightarrow> real \<Rightarrow> slot \<Rightarrow> real \<times> real" where
  "movedXZ s dt p =
     (let x1 = px p + (vx p * dt + driftX p * dt);
          z1 = pz p + (vz p * dt + driftZ p * dt);
          progress = 1 - life p;
          radialSpeed = ageSpreadStrength (config s) * (progress powr (115 / 100))
      in if progress > 0
         then (x1 + expandX p * radialSpeed * dt, z1 + expandZ p * radialSpeed * dt)
         else (x1, z1))"

text \<open>
  Lines 524-525: \<^verbatim>\<open>if (r > beakerRadius * 0.98) { s = (beakerRadius * 0.98) / r;
  positions[j] *= s; positions[j + 2] *= s; }\<close> with the bound \<open>c\<close>.
\<close>

definition clampXZ :: "real \<Rightarrow> real \<times> real \<Rightarrow> real \<times> real" where
  "clampXZ c xz =
     (let r = hypot (fst xz) (snd xz)
      in if r > c then (fst xz * (c / r), snd xz * (c / r)) else xz)"

text \<open>
  Lines 499-536 on one live slot; \<open>r0\<close> to \<open>r3\<close> are the four \<^verbatim>\<open>Math.random()\<close>
  values of the jitter.
\<close>

definition integrateOne ::
  "diffusion \<Rightarrow> real \<Rightarrow> real \<Rightarrow> real \<Rightarrow> real \<Rightarrow> real \<Rightarrow> slot \<Rightarrow> slot" where
  "integrateOne s dt r0 r1 r2 r3 p =
     (let damping = (96 / 100) powr (max 1 (dt * 60));
          y1 = py p + vy p * dt;
          vy1 = vy p + (25 / 1000) * dt;
          jitter = (2 / 100) * dt;
          vx1 = vx p + (r0 - 1 / 2) * jitter;
          vz1 = vz p + (r1 - 1 / 2) * jitter;
          driftJitter = (5 / 1000) * dt;
          dx1 = driftX p + (r2 - 1 / 2) * driftJitter;
          dz1 = driftZ p + (r3 - 1 / 2) * driftJitter;
          dmag = hypot dx1 dz1;
          dx2 = (if dmag > 5 / 100 then dx1 * (95 / 100) else dx1);
          dz2 = (if dmag > 5 / 100 then dz1 * (95 / 100) else dz1);
          y2 = min y1 (waterSurfaceY s - 1 / 100);
          xz = clampXZ (beakerRadius s * (98 / 100)) (movedXZ s dt p);
          aged = ageLife (lifeSeconds (config s)) dt p
      in p\<lparr>px := fst xz, py := y2, pz := snd xz,
           vx := vx1 * damping, vy := vy1 * damping, vz := vz1 * damping,
           life := fst aged, driftX := dx2, driftZ := dz2,
           fadeTimer := fst (snd aged), fadeDuration := snd (snd aged)\<rparr>)"

text \<open>
  The loop of lines 497-537 over the pool, from random index \<open>k\<close>: a slot that is not
  alive is skipped, a live one takes four random values.
\<close>

fun integrateAll :: "diffusion \<Rightarrow> real \<Rightarrow> nat \<Rightarrow> slot list \<Rightarrow> slot list \<times> nat" where
  "integrateAll s dt k [] = ([], k)"
| "integrateAll s dt k (p # ps) =
     (if life p \<le> 0
      then (case integrateAll s dt k ps of (qs, k1) \<Rightarrow> (p # qs, k1))
      else (case integrateAll s dt (k + 4) ps of (qs, k1) \<Rightarrow>
              (integrateOne s dt (rnd s k) (rnd s (k + 1)) (rnd s (k + 2)) (rnd s (k + 3)) p # qs,
               k1)))"

definition integratePhase :: "real \<Rightarrow> diffusion \<Rightarrow> diffusion" where
  "integratePhase dt s =
     (case integrateAll s dt (rndi s) (particles s) of
        (ps, k) \<Rightarrow> s\<lparr>particles := ps, rndi := k\<rparr>)"

subsection \<open>The tick\<close>

text \<open>Lines 393-395: the timed burst of the debug mode.\<close>

definition debugTick :: "real \<Rightarrow> diffusion \<Rightarrow> diffusion" where
  "debugTick dt s =
     (if debugForce s
      then (if debugT s + dt > 12 / 100 then addSource 0 0 30 (s\<lparr>debugT := 0\<rparr>)
            else s\<lparr>debugT := debugT s + dt\<rparr>)
      else s)"

text \<open>The state of \<^verbatim>\<open>update\<close> after the spawn loop, before the integration pass.\<close>

definition updateSpawned :: "real \<Rightarrow> diffusion \<Rightarrow> diffusion" where
  "updateSpawned dt s =
     (let s0 = debugTick dt s
      in case points s0 of None \<Rightarrow> s0 | Some u \<Rightarrow> spawnPhase dt s0)"

definition update :: "real \<Rightarrow> diffusion \<Rightarrow> diffusion" where
  "update dt s =
     (let s0 = debugTick dt s
      in case points s0 of None \<Rightarrow> s0 | Some u \<Rightarrow> integratePhase dt (spawnPhase dt s0))"

text \<open>A run of ticks, one \<^verbatim>\<open>update(dt)\<close> per element.\<close>

primrec ticks :: "real list \<Rightarrow> diffusion \<Rightarrow> diffusion" where
  "ticks [] s = s"
| "ticks (dt # dts) s = ticks dts (update dt s)"

section \<open>Clearing and fading\<close>

definition clearPlume :: "diffusion \<Rightarrow> diffusion" where
  "clearPlume s =
     (let s1 = (case points s of None \<Rightarrow> s
                | Some u \<Rightarrow> s\<lparr>particles := map (\<lambda>p. p\<lparr>life := 0\<rparr>) (particles s)\<rparr>)
      in s1\<lparr>spawnQueue := []\<rparr>)"

definition clearBottomPlumeParticles :: "diffusion \<Rightarrow> diffusion" where
  "clearBottomPlumeParticles s =
     (case points s of
        None \<Rightarrow> s
      | Some u \<Rightarrow>
          s\<lparr>particles :=
              map (\<lambda>p. if life p > 0 \<and> gate p < 5 / 10
                       then p\<lparr>life := 0, fadeDuration := 0, fadeTimer := 0\<rparr> else p)
                (particles s),
            spawnQueue := filter (\<lambda>q. \<not> req_bottom q) (spawnQueue s)\<rparr>)"

text \<open>
  \<^verbatim>\<open>fadeOutBottomPlumes\<close>: the inner test \<^verbatim>\<open>life[i] <= 0.0\<close> of line 709 is taken
  by no slot that passed \<^verbatim>\<open>life[i] > 0.0\<close>. The number returned is
  \<open>fadeOutAffected\<close>.
\<close>

definition fadeOutBottomPlumes :: "real \<Rightarrow> diffusion \<Rightarrow> diffusion" where
  "fadeOutBottomPlumes durationSec s =
     (case points s of
        None \<Rightarrow> s
      | Some u \<Rightarrow>
          s\<lparr>particles :=
              map (\<lambda>p. if life p > 0 \<and> gate p < 5 / 10
                       then p\<lparr>fadeDuration := durationSec, fadeTimer := 0\<rparr> else p)
                (particles s)\<rparr>)"

definition fadeOutAffected :: "diffusion \<Rightarrow> nat" where
  "fadeOutAffected s =
     (case points s of
        None \<Rightarrow> 0
      | Some u \<Rightarrow> length (filter (\<lambda>p. life p > 0 \<and> gate p < 5 / 10) (particles s)))"

definition reset :: "diffusion \<Rightarrow> diffusion" where
  "reset s =
     s\<lparr>water := map_option (\<lambda>w. w\<lparr>uGlobalConc := 0\<rparr>) (water s),
       particles := map (\<lambda>p. p\<lparr>life := 0, px := 0, py := 0, pz := 0, vx := 0, vy := 0, vz := 0\<rparr>)
                      (particles s)\<rparr>"

definition setBottomPlumeOffset :: "real \<Rightarrow> real \<Rightarrow> diffusion \<Rightarrow> diffusion" where
  "setBottomPlumeOffset x z s = s\<lparr>bottomPlumeOffset := (x, z)\<rparr>"

section \<open>The pool as stored\<close>

text \<open>
  The pool arrays are \<^verbatim>\<open>Float32Array\<close>s (lines 159-169): a write rounds the double to
  the nearest binary32 value, ties to even, as \<^verbatim>\<open>Math.fround\<close> does. \<open>rne\<close> is the
  rounding to the nearest integer, ties to even. In \<open>fround\<close>, \<open>e\<close> is the exponent of
  the binade of \<open>x\<close>, \<open>2 ^ e \<le> \<bar>x\<bar> < 2 ^ (e + 1)\<close>, and -126 in the subnormal range
  below; \<open>q\<close> is the distance between neighbouring binary32 values there, so the value
  written is the multiple of \<open>q\<close> nearest to \<open>x\<close>. The doubles of the computation are
  reals, rounded once when written; a magnitude of \<open>2 ^ 128\<close> or more, which the array
  stores as \<^verbatim>\<open>Infinity\<close>, is outside the model.
\<close>

definition rne :: "real \<Rightarrow> int" where
  "rne y =
     (let f = \<lfloor>y\<rfloor>; r = y - of_int f
      in if r < 1 / 2 then f else if r > 1 / 2 then f + 1 else if even f then f else f + 1)"

definition fround :: "real \<Rightarrow> real" where
  "fround x =
     (if x = 0 then 0
      else let e = max (- 126) \<lfloor>log 2 \<bar>x\<bar>\<rfloor>;
               q = 2 powr (of_int e - 23)
           in of_int (rne (x / q)) * q)"

text \<open>
  The functions of the tick that write to the pool, with every write rounded; the
  suffix 32 marks them. What they read from the pool is what was stored.
  \<^verbatim>\<open>spawnParticle\<close> writes each entry of the slot once (lines 324-350).
\<close>

definition storeSlot :: "slot \<Rightarrow> slot" where
  "storeSlot p =
     \<lparr> px = fround (px p), py = fround (py p), pz = fround (pz p),
       vx = fround (vx p), vy = fround (vy p), vz = fround (vz p),
       life = fround (life p),
       driftX = fround (driftX p), driftZ = fround (driftZ p),
       expandX = fround (expandX p), expandZ = fround (expandZ p),
       colR = fround (colR p), colG = fround (colG p), colB = fround (colB p),
       gate = fround (gate p),
       fadeTimer = fround (fadeTimer p), fadeDuration = fround (fadeDuration p) \<rparr>"

definition spawnParticle32 :: "real \<Rightarrow> real \<Rightarrow> real \<times> real \<times> real \<Rightarrow> bool \<Rightarrow> diffusion \<Rightarrow> diffusion" where
  "spawnParticle32 localX localZ rgb gated s =
     (if \<not> enabled (config s) then s
      else if real (activeCount s) \<ge> maxActive (config s) then s
      else case firstFree (particles s) of
             None \<Rightarrow> s
           | Some idx \<Rightarrow>
               s\<lparr>particles := (particles s)[idx := storeSlot (newParticle s localX localZ rgb gated)],
                 rndi := rndi s + 9\<rparr>)"

definition drainStep32 :: "request \<Rightarrow> request list \<Rightarrow> nat list \<Rightarrow> diffusion \<Rightarrow> nat list \<times> diffusion" where
  "drainStep32 req rest g s =
     (let s1 = (if req_bottom req then s\<lparr>bottomInjecting := True\<rparr> else s);
          rgb = (case req_rgb req of Some c \<Rightarrow> c | None \<Rightarrow> (1, 1, 1));
          gated = (\<not> req_bottom req);
          thin = (real (activeCount s1) > maxActive (config s1) * (85 / 100));
          allow1 = (\<not> (thin \<and> rnd s1 (rndi s1) < 5 / 10));
          s2 = (if thin then s1\<lparr>rndi := rndi s1 + 1\<rparr> else s1);
          gi = gridIndex s2 (req_x req) (req_z req);
          crowded = (allow1 \<and> real (g ! gi) \<ge> maxPerCell (config s2));
          allow = (allow1 \<and>
             \<not> (crowded \<and> rnd s2 (rndi s2) < suppressionProbability (config s2)));
          s3 = (if crowded then s2\<lparr>rndi := rndi s2 + 1\<rparr> else s2);
          s4 = (if allow then spawnParticle32 (req_x req) (req_z req) rgb gated s3 else s3);
          g1 = (if allow then bump g gi else g);
          s5 = (if req_bottom req then s4\<lparr>bottomInjecting := False\<rparr> else s4);
          q1 = (if req_count req - 1 \<le> 0 then rest
                else req\<lparr>req_count := req_count req - 1\<rparr> # rest)
      in (g1, s5\<lparr>spawnQueue := q1\<rparr>))"

fun drain32 :: "nat \<Rightarrow> nat list \<Rightarrow> diffusion \<Rightarrow> nat list \<times> diffusion" where
  "drain32 0 g s = (g, s)"
| "drain32 (Suc budget) g s =
     (case spawnQueue s of
        [] \<Rightarrow> (g, s)
      | req # rest \<Rightarrow> (case drainStep32 req rest g s of (g1, s1) \<Rightarrow> drain32 budget g1 s1))"

definition spawnPhase32 :: "real \<Rightarrow> diffusion \<Rightarrow> diffusion" where
  "spawnPhase32 dt s =
     (let grid = buildGrid s;
          (budget, acc1) = spawnBudget (tickAccum dt s) (length (spawnQueue s));
          s1 = s\<lparr>rndi := rndi s + 1, spawnAccum := acc1\<rparr>
      in snd (drain32 (nat budget) grid s1))"

text \<open>
  Lines 527-536: \<^verbatim>\<open>life[i] -= dt / lifeSeconds\<close>, \<^verbatim>\<open>fadeTimers[i] += dt\<close> and
  \<^verbatim>\<open>life[i] = fadeLife\<close> are writes to the arrays; \<^verbatim>\<open>k\<close> and \<^verbatim>\<open>fadeLife\<close> are
  doubles computed from the stored timer and duration.
\<close>

definition ageLife32 :: "real \<Rightarrow> real \<Rightarrow> slot \<Rightarrow> real \<times> real \<times> real" where
  "ageLife32 lifeSec dt p =
     (let l1 = fround (life p - dt / lifeSec);
          l2 = (if l1 < 0 then 0 else l1)
      in if gate p < 5 / 10 \<and> fadeDuration p > 0
         then
           let ft = fround (fadeTimer p + dt);
               k = min 1 (ft / fadeDuration p);
               fadeLife = 1 - k;
               l3 = (if l2 > fadeLife then fround fadeLife else l2)
           in if k \<ge> 1 then (0, ft, 0) else (l3, ft, fadeDuration p)
         else (l2, fadeTimer p, fadeDuration p))"

text \<open>Lines 500-512: each \<^verbatim>\<open>positions[j] += ...\<close> is one write.\<close>

definition movedXZ32 :: "diffusion \<Rightarrow> real \<Rightarrow> slot \<Rightarrow> real \<times> real" where
  "movedXZ32 s dt p =
     (let x1 = fround (px p + (vx p * dt + driftX p * dt));
          z1 = fround (pz p + (vz p * dt + driftZ p * dt));
          progress = 1 - life p;
          radialSpeed = ageSpreadStrength (config s) * (progress powr (115 / 100))
      in if progress > 0
         then (fround (x1 + expandX p * radialSpeed * dt),
               fround (z1 + expandZ p * radialSpeed * dt))
         else (x1, z1))"

text \<open>
  Lines 524-525: \<^verbatim>\<open>r\<close> is computed from the stored position, and
  \<^verbatim>\<open>positions[j] *= s; positions[j + 2] *= s\<close> are two writes.
\<close>

definition clampXZ32 :: "real \<Rightarrow> real \<times> real \<Rightarrow> real \<times> real" where
  "clampXZ32 c xz =
     (let r = hypot (fst xz) (snd xz)
      in if r > c then (fround (fst xz * (c / r)), fround (snd xz * (c / r))) else xz)"

definition integrateOne32 ::
  "diffusion \<Rightarrow> real \<Rightarrow> real \<Rightarrow> real \<Rightarrow> real \<Rightarrow> real \<Rightarrow> slot \<Rightarrow> slot" where
  "integrateOne32 s dt r0 r1 r2 r3 p =
     (let damping = (96 / 100) powr (max 1 (dt * 60));
          y1 = fround (py p + vy p * dt);
          vy1 = fround (vy p + (25 / 1000) * dt);
          jitter = (2 / 100) * dt;
          vx1 = fround (vx p + (r0 - 1 / 2) * jitter);
          vz1 = fround (vz p + (r1 - 1 / 2) * jitter);
          driftJitter = (5 / 1000) * dt;
          dx1 = fround (driftX p + (r2 - 1 / 2) * driftJitter);
          dz1 = fround (driftZ p + (r3 - 1 / 2) * driftJitter);
          dmag = hypot dx1 dz1;
          dx2 = (if dmag > 5 / 100 then fround (dx1 * (95 / 100)) else dx1);
          dz2 = (if dmag > 5 / 100 then fround (dz1 * (95 / 100)) else dz1);
          y2 = fround (min y1 (waterSurfaceY s - 1 / 100));
          xz = clampXZ32 (beakerRadius s * (98 / 100)) (movedXZ32 s dt p);
          aged = ageLife32 (lifeSeconds (config s)) dt p
      in p\<lparr>px := fst xz, py := y2, pz := snd xz,
           vx := fround (vx1 * damping), vy := fround (vy1 * damping),
           vz := fround (vz1 * damping),
           life := fst aged, driftX := dx2, driftZ := dz2,
           fadeTimer := fst (snd aged), fadeDuration := snd (snd aged)\<rparr>)"

fun integrateAll32 :: "diffusion \<Rightarrow> real \<Rightarrow> nat \<Rightarrow> slot list \<Rightarrow> slot list \<times> nat" where
  "integrateAll32 s dt k [] = ([], k)"
| "integrateAll32 s dt k (p # ps) =
     (if life p \<le> 0
      then (case integrateAll32 s dt k ps of (qs, k1) \<Rightarrow> (p # qs, k1))
      else (case integrateAll32 s dt (k + 4) ps of (qs, k1) \<Rightarrow>
              (integrateOne32 s dt (rnd s k) (rnd s (k + 1)) (rnd s (k + 2)) (rnd s (k + 3)) p # qs,
               k1)))"

definition integratePhase32 :: "real \<Rightarrow> diffusion \<Rightarrow> diffusion" where
  "integratePhase32 dt s =
     (case integrateAll32 s dt (rndi s) (particles s) of
        (ps, k) \<Rightarrow> s\<lparr>particles := ps, rndi := k\<rparr>)"

definition updateSpawned32 :: "real \<Rightarrow> diffusion \<Rightarrow> diffusion" where
  "updateSpawned32 dt s =
     (let s0 = debugTick dt s
      in case points s0 of None \<Rightarrow> s0 | Some u \<Rightarrow> spawnPhase32 dt s0)"

definition update32 :: "real \<Rightarrow> diffusion \<Rightarrow> diffusion" where
  "update32 dt s =
     (let s0 = debugTick dt s
      in case points s0 of None \<Rightarrow> s0 | Some u \<Rightarrow> integratePhase32 dt (spawnPhase32 dt s0))"




section \<open>Calls of the public interface\<close>

datatype call =
    AddSource real real int
  | AddBottomSource real real int "real \<times> real \<times> real" style
  | Update real
  | Step real "8 word list"
  | SetPlumeConfig configArgs
  | DisableBottomPlumes bool
  | EnableBottomPlumes
  | FadeOutBottomPlumes real
  | ClearPlume
  | ClearBottomPlumeParticles
  | Reset
  | SetBottomPlumeOffset real real
  | BindUniforms "waterUniforms option"

fun exec :: "call \<Rightarrow> diffusion \<Rightarrow> diffusion" where
  "exec (AddSource x z n) s = addSource x z n s"
| "exec (AddBottomSource x z n rgb st) s = addBottomSource x z n rgb st s"
| "exec (Update dt) s = update dt s"
| "exec (Step dt img) s = step dt img s"
| "exec (SetPlumeConfig a) s = setPlumeConfig a s"
| "exec (DisableBottomPlumes b) s = disableBottomPlumes b s"
| "exec EnableBottomPlumes s = enableBottomPlumes s"
| "exec (FadeOutBottomPlumes d) s = fadeOutBottomPlumes d s"
| "exec ClearPlume s = clearPlume s"
| "exec ClearBottomPlumeParticles s = clearBottomPlumeParticles s"
| "exec Reset s = reset s"
| "exec (SetBottomPlumeOffset x z) s = setBottomPlumeOffset x z s"
| "exec (BindUniforms w) s = bindUniforms w s"

primrec run :: "call list \<Rightarrow> diffusion \<Rightarrow> diffusion" where
  "run [] s = s"
| "run (c # cs) s = run cs (exec c s)"

section \<open>Powder (src/lib/powder.js)\<close>

text \<open>
  One grain of a batch: \<^verbatim>\<open>positions[3i..3i+2]\<close> (relative to the batch's
  \<^verbatim>\<open>points.position\<close>), \<^verbatim>\<open>velocities[3i..3i+2]\<close> and \<^verbatim>\<open>settledFlags[i]\<close>, which is 0
  or 1.
\<close>

record grain =
  gx :: real
  gy :: real
  gz :: real
  gvx :: real
  gvy :: real
  gvz :: real
  settled :: bool

text \<open>
  A batch: its grains, what the simulation reads of its \<^verbatim>\<open>points\<close> and \<^verbatim>\<open>material\<close>,
  and its \<^verbatim>\<open>state\<close> object. \<^verbatim>\<open>waterSurfaceY\<close> is \<open>None\<close> when it is not finite,
  \<open>onEnterWater\<close> tells whether a callback is set, and \<open>beakerGroup\<close> is the
  \<^verbatim>\<open>worldToLocal\<close> transform of \<^verbatim>\<open>state._beakerGroup\<close>.
\<close>

record batch =
  grains :: "grain list"
  visible :: bool
  posX :: real
  posY :: real
  posZ :: real
  materialOpacity :: real
  dropping :: bool
  dropElapsed :: real
  bottomYWorld :: real
  centerX :: real
  centerZ :: real
  stateBeakerRadius :: real
  swirling :: bool
  swirlElapsed :: real
  swirlDuration :: real
  swirlCenterX :: real
  swirlCenterZ :: real
  swirlStrength :: real
  swirlInward :: real
  swirlDrag :: real
  swirlDir :: real
  dissolveActive :: bool
  dissolveElapsed :: real
  dissolveDurationSec :: real
  dead :: bool
  stateWaterSurfaceY :: "real option"
  enterNotified :: bool
  onEnterWater :: bool
  beakerGroup :: "(real \<times> real \<times> real \<Rightarrow> real \<times> real \<times> real) option"

text \<open>
  What \<^verbatim>\<open>update\<close> does to the outside: the \<^verbatim>\<open>onEnterWater\<close> callback and the calls
  on the diffusion manager (the colour is the hex number).
\<close>

datatype effect =
    EnterWater real real real
  | CallAddBottomSource real real int nat style
  | CallAddSource real real int

fun isBottomCall :: "effect \<Rightarrow> bool" where
  "isBottomCall (CallAddBottomSource x z n c st) = True"
| "isBottomCall e = False"

text \<open>
  The diffusion manager as the powder sees it: whether it has \<^verbatim>\<open>addBottomSource\<close>, and
  what \<^verbatim>\<open>isIndicatorEnabled()\<close> answers (\<open>None\<close> when that is not a function).
\<close>

record handle =
  hasAddBottomSource :: bool
  indicatorEnabled :: "bool option"

record powder =
  batches :: "batch list"
  diffusionHandle :: "handle option"
  plumeSpawnAccum :: real

definition plumeSpawnInterval :: real where
  "plumeSpawnInterval = 12 / 100"

definition plumePerBurst :: int where
  "plumePerBurst = 18"

definition plumeRadiusJitter :: real where
  "plumeRadiusJitter = 18 / 100"

subsection \<open>Dropping\<close>

text \<open>Line 202: is a grain at world height \<open>baseY\<close> under water?\<close>

definition inWaterAt :: "batch \<Rightarrow> real \<Rightarrow> bool" where
  "inWaterAt b baseY =
     (case stateWaterSurfaceY b of None \<Rightarrow> False | Some w \<Rightarrow> baseY \<le> w - 1 / 1000)"

text \<open>
  Lines 212-216: the vertical velocity after gravity and, under water, buoyancy and
  drag. Line 226: does the grain reach the floor in this tick?
\<close>

definition fallVy :: "real \<Rightarrow> batch \<Rightarrow> grain \<Rightarrow> real" where
  "fallVy dt b g =
     (let grav = 6;
          vy1 = gvy g - grav * dt
      in if inWaterAt b (posY b + gy g)
         then (vy1 + (grav * (45 / 100)) * dt) * (93 / 100) else vy1)"

definition dropHit :: "real \<Rightarrow> batch \<Rightarrow> grain \<Rightarrow> bool" where
  "dropHit dt b g = (posY b + (gy g + fallVy dt b g * dt) \<le> bottomYWorld b + 1 / 100)"

text \<open>
  Lines 201-248 on one grain, without the callback: the grain after the tick, and
  whether it counted as a bottom hit.
\<close>

definition dropGrain :: "real \<Rightarrow> batch \<Rightarrow> grain \<Rightarrow> grain \<times> bool" where
  "dropGrain dt b g =
     (let bottomY = bottomYWorld b;
          eps = 1 / 100;
          inWater = inWaterAt b (posY b + gy g);
          vy2 = fallVy dt b g;
          vx2 = (if inWater then gvx g * (975 / 1000) else gvx g);
          vz2 = (if inWater then gvz g * (975 / 1000) else gvz g);
          x1 = gx g + vx2 * dt;
          y1 = gy g + vy2 * dt;
          z1 = gz g + vz2 * dt;
          hit = dropHit dt b g;
          y2 = (if hit then (bottomY + eps) - posY b else y1);
          vy3 = (if hit then 0 else vy2);
          vx3 = (if hit then vx2 * (96 / 100) else vx2);
          vz3 = (if hit then vz2 * (96 / 100) else vz2);
          dx = (posX b + x1) - centerX b;
          dz = (posZ b + z1) - centerZ b;
          r = hypot dx dz;
          maxR = max 0 (stateBeakerRadius b - 6 / 100);
          sc = maxR / (r + 1 / 1000000);
          x2 = (if r > maxR then (centerX b + dx * sc) - posX b else x1);
          z2 = (if r > maxR then (centerZ b + dz * sc) - posZ b else z1);
          vx4 = (if r > maxR then vx3 * (8 / 10) else vx3);
          vz4 = (if r > maxR then vz3 * (8 / 10) else vz3)
      in (g\<lparr>gx := x2, gy := y2, gz := z2, gvx := vx4, gvy := vy3, gvz := vz4,
            settled := (settled g \<or> hit)\<rparr>, hit))"

text \<open>
  Lines 204-211: the callback fires for the first grain found under water, once per
  batch, with that grain's position before the tick.
\<close>

definition enterEffects :: "batch \<Rightarrow> effect list" where
  "enterEffects b =
     (if \<not> enterNotified b \<and> onEnterWater b
      then (case stateWaterSurfaceY b of
              None \<Rightarrow> []
            | Some w \<Rightarrow>
                (case find (\<lambda>g. inWaterAt b (posY b + gy g)) (grains b) of
                   None \<Rightarrow> []
                 | Some g \<Rightarrow> [EnterWater (posX b + gx g) w (posZ b + gz g)]))
      else [])"

text \<open>
  \<^verbatim>\<open>bottomHits / count >= 0.6\<close>; for an empty batch the quotient is NaN and the test
  fails.
\<close>

definition hitFracReached :: "nat \<Rightarrow> nat \<Rightarrow> bool" where
  "hitFracReached bottomHits n = (n \<noteq> 0 \<and> real bottomHits / real n \<ge> 6 / 10)"

definition bottomHits :: "real \<Rightarrow> batch \<Rightarrow> nat" where
  "bottomHits dt b = length (filter (\<lambda>g. snd (dropGrain dt b g)) (grains b))"

text \<open>Lines 194-258.\<close>

definition dropPhase :: "real \<Rightarrow> batch \<Rightarrow> batch" where
  "dropPhase dt b =
     (let elapsed = dropElapsed b + dt
      in b\<lparr>grains := map (\<lambda>g. fst (dropGrain dt b g)) (grains b),
           enterNotified := (enterNotified b \<or> enterEffects b \<noteq> []),
           dropElapsed := elapsed,
           dropping := (\<not> (hitFracReached (bottomHits dt b) (length (grains b))
                            \<or> elapsed \<ge> 8))\<rparr>)"

subsection \<open>Swirling and dissolving\<close>

text \<open>Lines 276-310 on one grain, with the faded strength and inward pull.\<close>

definition swirlGrain :: "real \<Rightarrow> batch \<Rightarrow> real \<Rightarrow> real \<Rightarrow> real \<Rightarrow> grain \<Rightarrow> grain" where
  "swirlGrain dt b strength inward drag g =
     (let bottomY = bottomYWorld b;
          eps = 1 / 100;
          maxR = max 0 (stateBeakerRadius b - 6 / 100);
          onBottom = (posY b + gy g \<le> bottomY + eps);
          y1 = (if onBottom then (bottomY + eps) - posY b else gy g);
          vy1 = (if onBottom then 0 else gvy g);
          dx = (posX b + gx g) - swirlCenterX b;
          dz = (posZ b + gz g) - swirlCenterZ b;
          r = hypot dx dz + 1 / 1000000;
          tx = (- dz / r) * swirlDir b;
          tz = (dx / r) * swirlDir b;
          vx1 = gvx g + (tx * strength - (dx / r) * inward) * dt;
          vz1 = gvz g + (tz * strength - (dz / r) * inward) * dt;
          x1 = gx g + vx1 * dt;
          z1 = gz g + vz1 * dt;
          ndx = (posX b + x1) - centerX b;
          ndz = (posZ b + z1) - centerZ b;
          nr = hypot ndx ndz;
          sc = maxR / (nr + 1 / 1000000);
          x2 = (if nr > maxR then (centerX b + ndx * sc) - posX b else x1);
          z2 = (if nr > maxR then (centerZ b + ndz * sc) - posZ b else z1);
          vx2 = (if nr > maxR then vx1 * (85 / 100) else vx1);
          vz2 = (if nr > maxR then vz1 * (85 / 100) else vz1);
          damp = exp (- drag * dt)
      in g\<lparr>gx := x2, gy := y1, gz := z2, gvx := vx2 * damp, gvy := vy1, gvz := vz2 * damp\<rparr>)"

text \<open>Lines 261-317.\<close>

definition swirlPhase :: "real \<Rightarrow> batch \<Rightarrow> batch" where
  "swirlPhase dt b =
     (let t = swirlElapsed b;
          T = max (1 / 1000) (swirlDuration b);
          fade = (if t > T * (7 / 10) then max 0 (1 - (t - T * (7 / 10)) / (T * (3 / 10))) else 1);
          strength = swirlStrength b * fade;
          inward = swirlInward b * fade;
          drag = max 0 (swirlDrag b);
          elapsed = swirlElapsed b + dt
      in b\<lparr>grains := map (swirlGrain dt b strength inward drag) (grains b),
           swirlElapsed := elapsed,
           swirling := (\<not> elapsed \<ge> swirlDuration b)\<rparr>)"

text \<open>Lines 320-330; \<^verbatim>\<open>state.dissolveDurationSec || 1.0\<close> replaces a duration of 0.\<close>

definition dissolvePhase :: "real \<Rightarrow> batch \<Rightarrow> batch" where
  "dissolvePhase dt b =
     (let elapsed = dissolveElapsed b + dt;
          dur = max (1 / 1000) (if dissolveDurationSec b = 0 then 1 else dissolveDurationSec b);
          k = min 1 (elapsed / dur);
          newOpacity = max 0 (1 - k);
          b1 = b\<lparr>dissolveElapsed := elapsed, materialOpacity := newOpacity\<rparr>
      in if newOpacity \<le> 2 / 100 then b1\<lparr>visible := False, dissolveActive := False\<rparr> else b1)"

text \<open>The body of the loop over the batches, lines 189-331.\<close>

definition updateBatch :: "real \<Rightarrow> batch \<Rightarrow> batch" where
  "updateBatch dt b =
     (if dead b then b
      else if \<not> visible b \<and> \<not> dropping b \<and> \<not> swirling b \<and> \<not> dissolveActive b then b
      else
        let b1 = (if dropping b then dropPhase dt b else b);
            b2 = (if \<not> dropping b1 \<and> swirling b1 then swirlPhase dt b1 else b1)
        in if dissolveActive b2 then dissolvePhase dt b2 else b2)"

text \<open>The callback effects of that loop body.\<close>

definition batchEffects :: "batch \<Rightarrow> effect list" where
  "batchEffects b =
     (if dead b then []
      else if \<not> visible b \<and> \<not> dropping b \<and> \<not> swirling b \<and> \<not> dissolveActive b then []
      else if dropping b then enterEffects b else [])"

subsection \<open>Emission of bottom plume sources\<close>

definition settledCount :: "batch \<Rightarrow> nat" where
  "settledCount b = length (filter settled (grains b))"

text \<open>
  Lines 355-380: the centroid of the settled grains in beaker-local coordinates
  \<^verbatim>\<open>(lx, lz)\<close>, and in world coordinates \<^verbatim>\<open>(wx, wz)\<close>.
\<close>

definition centroidWorld :: "batch \<Rightarrow> real \<times> real" where
  "centroidWorld b =
     (let st = filter settled (grains b);
          sx = sum_list (map gx st) / real (length st);
          sz = sum_list (map gz st) / real (length st)
      in (posX b + sx, posZ b + sz))"

definition centroidLocal :: "batch \<Rightarrow> real \<times> real" where
  "centroidLocal b =
     (let (wx, wz) = centroidWorld b
      in case beakerGroup b of
           Some worldToLocal \<Rightarrow>
             (let local = worldToLocal (wx, bottomYWorld b, wz) in (fst local, snd (snd local)))
         | None \<Rightarrow> (wx - centerX b, wz - centerZ b))"

text \<open>Lines 398-410: \<open>pH\<close> is the \<^verbatim>\<open>pHScore\<close> of the chemistry state, when there is one.\<close>

definition reactionColor :: "real option \<Rightarrow> nat" where
  "reactionColor pH =
     (case pH of None \<Rightarrow> 0x0b3c88 | Some v \<Rightarrow> (if v > 15 / 100 then 0x00b15a else 0x0b3c88))"

text \<open>Lines 421-424: the fallback without \<^verbatim>\<open>addBottomSource\<close>, \<open>k\<close> rounds left.\<close>

fun fallbackSources :: "(nat \<Rightarrow> real) \<Rightarrow> nat \<Rightarrow> real \<times> real \<Rightarrow> nat \<Rightarrow> effect list" where
  "fallbackSources rand i w 0 = []"
| "fallbackSources rand i w (Suc k) =
     (let a = rand i * pi * 2;
          r = rand (i + 1) * plumeRadiusJitter
      in CallAddSource (fst w + cos a * r) (snd w + sin a * r) 1
           # fallbackSources rand (i + 2) w k)"

text \<open>
  Lines 350-427: the first visible batch that is not dropping and has at least 20
  settled grains is the only one of the burst; with the indicator off nothing is emitted.
\<close>

definition burst :: "handle \<Rightarrow> real option \<Rightarrow> (nat \<Rightarrow> real) \<Rightarrow> batch list \<Rightarrow> effect list" where
  "burst d pH rand bs =
     (case find (\<lambda>b. visible b \<and> \<not> dropping b \<and> \<not> settledCount b < 20) bs of
        None \<Rightarrow> []
      | Some b \<Rightarrow>
          if hasAddBottomSource d
          then (if indicatorEnabled d = Some False then []
                else [CallAddBottomSource (fst (centroidLocal b)) (snd (centroidLocal b))
                        plumePerBurst (reactionColor pH)
                        \<lparr> ignoreIndicator = False, saturation = 70 / 100, opacity = 23 / 100,
                          brightness = 1 \<rparr>])
          else fallbackSources rand 0 (centroidWorld b) (nat plumePerBurst))"

text \<open>
  \<^verbatim>\<open>update(dt)\<close> of the powder: the new state and the effects in order. \<open>pH\<close> and
  \<open>rand\<close> are the chemistry state and \<^verbatim>\<open>Math.random\<close> of the environment.
\<close>

definition powderUpdate ::
  "real \<Rightarrow> real option \<Rightarrow> (nat \<Rightarrow> real) \<Rightarrow> powder \<Rightarrow> powder \<times> effect list" where
  "powderUpdate dt pH rand ps =
     (let bs = map (updateBatch dt) (batches ps);
          entered = concat (map batchEffects (batches ps));
          ps1 = ps\<lparr>batches := bs\<rparr>
      in case diffusionHandle ps of
           None \<Rightarrow> (ps1, entered)
         | Some d \<Rightarrow>
             if list_ex swirling bs then (ps1, entered)
             else if plumeSpawnAccum ps + dt \<ge> plumeSpawnInterval
             then (ps1\<lparr>plumeSpawnAccum := 0\<rparr>, entered @ burst d pH rand bs)
             else (ps1\<lparr>plumeSpawnAccum := plumeSpawnAccum ps + dt\<rparr>, entered))"

text \<open>The diffusion manager as a handle, and the effects applied to it.\<close>

definition handleOf :: "diffusion \<Rightarrow> handle" where
  "handleOf s = \<lparr> hasAddBottomSource = True, indicatorEnabled = Some (isIndicatorEnabled s) \<rparr>"

section \<open>Predicates and concrete states used by the theorems\<close>

text \<open>The bounds that \<^verbatim>\<open>setPlumeConfig\<close> enforces on the plume configuration.\<close>

definition configOk :: "plumeConfig \<Rightarrow> bool" where
  "configOk c =
     (0 \<le> maxActive c \<and> maxActive c \<le> 1000 \<and> lifeSeconds c \<ge> 5 / 100 \<and> spawnRate c \<ge> 0 \<and>
      spawnRateMultiplier c \<ge> 0 \<and> ageSpreadStrength c \<ge> 0 \<and> 0 \<le> minAlpha c \<and> minAlpha c \<le> 1 \<and>
      0 \<le> suppressionProbability c \<and> suppressionProbability c \<le> 1 \<and> cellSize c \<ge> 1 / 100 \<and>
      maxPerCell c \<ge> 1)"

text \<open>Every field whose argument is omitted has the value it had.\<close>

definition omittedUnchanged :: "configArgs \<Rightarrow> plumeConfig \<Rightarrow> plumeConfig \<Rightarrow> bool" where
  "omittedUnchanged a c c' =
     ((arg_spawnRate a = None \<longrightarrow> spawnRate c' = spawnRate c) \<and>
      (arg_spawnRateMultiplier a = None \<longrightarrow> spawnRateMultiplier c' = spawnRateMultiplier c) \<and>
      (arg_lifeSeconds a = None \<longrightarrow> lifeSeconds c' = lifeSeconds c) \<and>
      (arg_maxActive a = None \<longrightarrow> maxActive c' = maxActive c) \<and>
      (arg_alphaCurveExp a = None \<longrightarrow> alphaCurveExp c' = alphaCurveExp c) \<and>
      (arg_sizeCurveExp a = None \<longrightarrow> sizeCurveExp c' = sizeCurveExp c) \<and>
      (arg_minAlpha a = None \<longrightarrow> minAlpha c' = minAlpha c) \<and>
      (arg_enabled a = None \<longrightarrow> enabled c' = enabled c) \<and>
      (arg_baselineEmissionRate a = None \<longrightarrow> baselineEmissionRate c' = baselineEmissionRate c) \<and>
      (arg_ageSpreadStrength a = None \<longrightarrow> ageSpreadStrength c' = ageSpreadStrength c) \<and>
      (arg_cellSize a = None \<longrightarrow> cellSize c' = cellSize c) \<and>
      (arg_maxPerCell a = None \<longrightarrow> maxPerCell c' = maxPerCell c) \<and>
      (arg_suppressionProbability a = None \<longrightarrow>
         suppressionProbability c' = suppressionProbability c))"

text \<open>
  The manager as the scene creates it (beaker radius 1, water surface and height 1 as
  an example), with a random source that always answers one half.
\<close>

definition manager0 :: diffusion where
  "manager0 = createDiffusionManager 1 1 1 (\<lambda>k. 1 / 2)"

text \<open>
  A property kept by \<open>spawnParticle\<close> and by the bookkeeping writes of the loop is kept
  by the whole loop.
\<close>

definition loopStable :: "(diffusion \<Rightarrow> bool) \<Rightarrow> bool" where
  "loopStable P =
     ((\<forall>t x z c g. P t \<longrightarrow> P (spawnParticle x z c g t)) \<and>
      (\<forall>t b. P t \<longrightarrow> P (t\<lparr>bottomInjecting := b\<rparr>)) \<and>
      (\<forall>t k. P t \<longrightarrow> P (t\<lparr>rndi := k\<rparr>)) \<and>
      (\<forall>t q. P t \<longrightarrow> P (t\<lparr>spawnQueue := q\<rparr>)))"

text \<open>
  A property that is also kept by the writes of \<open>debugTick\<close> and of the spawn budget is
  kept by the part of \<open>update\<close> before the integration pass.
\<close>

definition tickStable :: "(diffusion \<Rightarrow> bool) \<Rightarrow> bool" where
  "tickStable P =
     (loopStable P \<and>
      (\<forall>t a. P t \<longrightarrow> P (t\<lparr>spawnAccum := a\<rparr>)) \<and>
      (\<forall>t a. P t \<longrightarrow> P (t\<lparr>debugT := a\<rparr>)) \<and>
      (\<forall>t u. P t \<longrightarrow> P (t\<lparr>points := Some u\<rparr>)))"

text \<open>The same for the spawn loop and the tick on the stored pool.\<close>

definition loopStable32 :: "(diffusion \<Rightarrow> bool) \<Rightarrow> bool" where
  "loopStable32 P =
     ((\<forall>t x z c g. P t \<longrightarrow> P (spawnParticle32 x z c g t)) \<and>
      (\<forall>t b. P t \<longrightarrow> P (t\<lparr>bottomInjecting := b\<rparr>)) \<and>
      (\<forall>t k. P t \<longrightarrow> P (t\<lparr>rndi := k\<rparr>)) \<and>
      (\<forall>t q. P t \<longrightarrow> P (t\<lparr>spawnQueue := q\<rparr>)))"

definition tickStable32 :: "(diffusion \<Rightarrow> bool) \<Rightarrow> bool" where
  "tickStable32 P =
     (loopStable32 P \<and>
      (\<forall>t a. P t \<longrightarrow> P (t\<lparr>spawnAccum := a\<rparr>)) \<and>
      (\<forall>t a. P t \<longrightarrow> P (t\<lparr>debugT := a\<rparr>)) \<and>
      (\<forall>t u. P t \<longrightarrow> P (t\<lparr>points := Some u\<rparr>)))"

text \<open>
  Particles are spawned by \<^verbatim>\<open>update\<close> only, and only once the point cloud exists:
  while \<^verbatim>\<open>points\<close> is null no slot is alive.
\<close>

definition poolConsistent :: "diffusion \<Rightarrow> bool" where
  "poolConsistent s = (points s \<noteq> None \<or> (\<forall>p \<in> set (particles s). \<not> alive p))"




text \<open>
  A manager for examples: the point cloud exists, the first slots of the pool are the
  given ones and the others are dead.
\<close>

definition poolOf :: "slot list \<Rightarrow> diffusion" where
  "poolOf ps = manager0\<lparr>particles := ps @ replicate (maxParticles - length ps) slot0,
     points := Some uniforms0\<rparr>"

text \<open>A live surface particle outside the beaker, and a live bottom particle.\<close>

definition farSlot :: slot where
  "farSlot = slot0\<lparr>px := 3, pz := 4, life := 1, gate := 1\<rparr>"

definition bottomSlot :: slot where
  "bottomSlot = slot0\<lparr>life := 1, gate := 0\<rparr>"

text \<open>A live surface particle at rest on the wall of a beaker of radius 1.\<close>

definition edgeSlot :: slot where
  "edgeSlot = slot0\<lparr>px := 1, life := 1, gate := 1\<rparr>"

text \<open>The style that the powder passes with a bottom source (powder.js, lines 411-418).\<close>

definition powderStyle :: style where
  "powderStyle = \<lparr> ignoreIndicator = False, saturation = 7 / 10, opacity = 23 / 100,
     brightness = 1 \<rparr>"



text \<open>\<^verbatim>\<open>life[i]\<close>.\<close>

definition lifeAt :: "diffusion \<Rightarrow> nat \<Rightarrow> real" where
  "lifeAt s i = life (particles s ! i)"

text \<open>
  The manager with bound water uniforms, the indicator off and no concentration, as
  the scene binds it.
\<close>

definition boundManager :: diffusion where
  "boundManager =
     bindUniforms (Some \<lparr> uGlobalConc = 0, uIndicatorEnabled = Some 0 \<rparr>) manager0"

text \<open>The manager after one surface request, and after five bottom requests.\<close>

definition oneQueued :: diffusion where
  "oneQueued = addSource 0 0 1 manager0"

definition fiveBottom :: diffusion where
  "fiveBottom = run (replicate 5 (AddBottomSource 0 0 18 (0, 0, 1) powderStyle)) manager0"

text \<open>The manager with bound water uniforms and a global concentration of one half.\<close>

definition tintedManager :: diffusion where
  "tintedManager =
     bindUniforms (Some \<lparr> uGlobalConc = 1 / 2, uIndicatorEnabled = Some 1 \<rparr>) manager0"

text \<open>
  A settled grain rests on the floor: it lies at the tracked bottom height with no
  vertical velocity, as the tick that set its flag leaves it.
\<close>

definition settledAtRest :: "batch \<Rightarrow> bool" where
  "settledAtRest b =
     (\<forall>g \<in> set (grains b). settled g \<longrightarrow>
        gy g = (bottomYWorld b + 1 / 100) - posY b \<and> gvy g = 0)"

text \<open>Grains for examples: at rest on the floor of \<open>exampleBatch\<close>, and falling.\<close>

definition restingGrain :: grain where
  "restingGrain = \<lparr> gx = 0, gy = - (199 / 100), gz = 0, gvx = 0, gvy = 0, gvz = 0,
     settled = True \<rparr>"


text \<open>
  A dropping batch spawned at height 2 over a floor at height 0, in a beaker of radius
  0.95 around the origin, with the given grains and drop time.
\<close>

definition exampleBatch :: "grain list \<Rightarrow> real \<Rightarrow> batch" where
  "exampleBatch gs elapsed =
     \<lparr> grains = gs, visible = True, posX = 0, posY = 2, posZ = 0, materialOpacity = 1,
       dropping = True, dropElapsed = elapsed, bottomYWorld = 0, centerX = 0, centerZ = 0,
       stateBeakerRadius = 95 / 100, swirling = False, swirlElapsed = 0, swirlDuration = 0,
       swirlCenterX = 0, swirlCenterZ = 0, swirlStrength = 0, swirlInward = 0,
       swirlDrag = 12 / 10, swirlDir = 1, dissolveActive = False, dissolveElapsed = 0,
       dissolveDurationSec = 0, dead = False, stateWaterSurfaceY = Some 1,
       enterNotified = False, onEnterWater = False, beakerGroup = None \<rparr>"

definition examplePowder :: "batch list \<Rightarrow> handle \<Rightarrow> powder" where
  "examplePowder bs d = \<lparr> batches = bs, diffusionHandle = Some d, plumeSpawnAccum = 0 \<rparr>"

text \<open>A settled batch of 25 grains at rest: the same batch, no longer dropping.\<close>

definition settledBatch :: batch where
  "settledBatch = (exampleBatch (replicate 25 restingGrain) 3)\<lparr>dropping := False\<rparr>"




section \<open>The plume configuration stays within its bounds\<close>

lemma config_setPlumeConfig: "config (setPlumeConfig a s) = setConfigFields a (config s)"
  by (simp add: setPlumeConfig_def applyPlumeUniforms_def ensurePoints_def Let_def
      split: option.splits bool.splits)

lemma upd_ge: "lo \<le> old \<Longrightarrow> (lo::real) \<le> upd a (max lo) old"
  by (cases a) (simp_all add: upd_def)

lemma upd_clamp_lo:
  "lo \<le> old \<Longrightarrow> lo \<le> hi \<Longrightarrow> (lo::real) \<le> upd a (\<lambda>v. min hi (max lo v)) old"
  by (cases a) (simp_all add: upd_def)

lemma upd_clamp_hi: "old \<le> hi \<Longrightarrow> upd a (\<lambda>v. min hi (max lo v)) old \<le> (hi::real)"
  by (cases a) (simp_all add: upd_def)

lemma configOk_setConfigFields: "configOk c \<Longrightarrow> configOk (setConfigFields a c)"
  unfolding configOk_def setConfigFields_def maxParticles_def
  using upd_ge [of "5 / 100" "lifeSeconds c" "arg_lifeSeconds a"]
    upd_ge [of "1 / 100" "cellSize c" "arg_cellSize a"]
  by (simp add: upd_ge upd_clamp_lo upd_clamp_hi)

lemma configOk_plumeConfig0: "configOk plumeConfig0"
  by (simp add: configOk_def plumeConfig0_def maxParticles_def)

lemma omitted_setConfigFields: "omittedUnchanged a c (setConfigFields a c)"
  by (simp add: omittedUnchanged_def setConfigFields_def upd_def)

text \<open>
  C10: after a call of \<^verbatim>\<open>setPlumeConfig\<close> with any combination of provided and omitted
  arguments, on a configuration within the bounds (as the initial one is), the
  configuration satisfies \<open>0 \<le> maxActive \<le> 1000\<close>, \<open>lifeSeconds \<ge> 0.05\<close>,
  \<open>spawnRate \<ge> 0\<close>, \<open>spawnRateMultiplier \<ge> 0\<close>, \<open>ageSpreadStrength \<ge> 0\<close>,
  \<open>0 \<le> minAlpha \<le> 1\<close>, \<open>0 \<le> suppressionProbability \<le> 1\<close>, \<open>cellSize \<ge> 0.01\<close> and
  \<open>maxPerCell \<ge> 1\<close>, and every omitted field is left unchanged.
\<close>

theorem setPlumeConfig_bounds:
  assumes "configOk (config s)"
  shows "configOk (config (setPlumeConfig a s)) \<and>
         omittedUnchanged a (config s) (config (setPlumeConfig a s))"
  using assms by (simp add: config_setPlumeConfig configOk_setConfigFields omitted_setConfigFields)

theorem setPlumeConfig_bounds_witness:
  "configOk (config manager0) \<and>
   configOk (config (setPlumeConfig
     (noArgs\<lparr>arg_maxActive := Some 5000, arg_lifeSeconds := Some 0\<rparr>) manager0)) \<and>
   omittedUnchanged (noArgs\<lparr>arg_maxActive := Some 5000, arg_lifeSeconds := Some 0\<rparr>)
     (config manager0)
     (config (setPlumeConfig
        (noArgs\<lparr>arg_maxActive := Some 5000, arg_lifeSeconds := Some 0\<rparr>) manager0))"
proof -
  have h: "configOk (config manager0)"
    by (simp add: manager0_def createDiffusionManager_def configOk_plumeConfig0)
  show ?thesis
    using h setPlumeConfig_bounds [OF h] by simp
qed

section \<open>Spawning into the pool\<close>

lemma firstFree_Some: "firstFree ps = Some idx \<Longrightarrow> idx < length ps \<and> \<not> alive (ps ! idx)"
proof (induction ps arbitrary: idx)
  case Nil
  then show ?case by simp
next
  case (Cons p ps)
  show ?case
  proof (cases "life p > 0")
    case True
    with Cons.prems obtain j where j: "firstFree ps = Some j" "idx = Suc j"
      by auto
    with Cons.IH [of j] show ?thesis by simp
  next
    case False
    with Cons.prems show ?thesis by (simp add: alive_def)
  qed
qed


lemma length_spawnParticle:
  "length (particles (spawnParticle x z c g s)) = length (particles s)"
  by (simp add: spawnParticle_def split: option.splits)





lemma config_spawnParticle: "config (spawnParticle x z c g s) = config s"
  by (simp add: spawnParticle_def split: option.splits)

subsection \<open>Invariants of the spawn loop\<close>

lemma drainStep_stable:
  assumes "loopStable P" and "P s"
  shows "P (snd (drainStep req rest g s))"
proof -
  have sp: "\<And>t x z c g. P t \<Longrightarrow> P (spawnParticle x z c g t)"
    and bi: "\<And>t b. P t \<Longrightarrow> P (t\<lparr>bottomInjecting := b\<rparr>)"
    and ri: "\<And>t k. P t \<Longrightarrow> P (t\<lparr>rndi := k\<rparr>)"
    and sq: "\<And>t q. P t \<Longrightarrow> P (t\<lparr>spawnQueue := q\<rparr>)"
    using assms(1) by (auto simp: loopStable_def)
  define s1 where "s1 = (if req_bottom req then s\<lparr>bottomInjecting := True\<rparr> else s)"
  have p1: "P s1" using assms(2) bi by (simp add: s1_def)
  define thin where "thin = (real (activeCount s1) > maxActive (config s1) * (85 / 100))"
  define s2 where "s2 = (if thin then s1\<lparr>rndi := rndi s1 + 1\<rparr> else s1)"
  have p2: "P s2" using p1 ri by (simp add: s2_def)
  define allow1 where "allow1 = (\<not> (thin \<and> rnd s1 (rndi s1) < 5 / 10))"
  define gi where "gi = gridIndex s2 (req_x req) (req_z req)"
  define crowded where "crowded = (allow1 \<and> real (g ! gi) \<ge> maxPerCell (config s2))"
  define s3 where "s3 = (if crowded then s2\<lparr>rndi := rndi s2 + 1\<rparr> else s2)"
  have p3: "P s3" using p2 ri by (simp add: s3_def)
  define allow where "allow = (allow1 \<and>
     \<not> (crowded \<and> rnd s2 (rndi s2) < suppressionProbability (config s2)))"
  define s4 where "s4 = (if allow then spawnParticle (req_x req) (req_z req)
     (case req_rgb req of Some c \<Rightarrow> c | None \<Rightarrow> (1, 1, 1)) (\<not> req_bottom req) s3 else s3)"
  have p4: "P s4" using p3 sp by (simp add: s4_def)
  define s5 where "s5 = (if req_bottom req then s4\<lparr>bottomInjecting := False\<rparr> else s4)"
  have p5: "P s5" using p4 bi by (simp add: s5_def)
  have "snd (drainStep req rest g s) = s5\<lparr>spawnQueue :=
      (if req_count req - 1 \<le> 0 then rest else req\<lparr>req_count := req_count req - 1\<rparr> # rest)\<rparr>"
    unfolding drainStep_def Let_def s5_def s4_def allow_def s3_def crowded_def gi_def
      allow1_def s2_def thin_def s1_def by simp
  with p5 sq show ?thesis by simp
qed

lemma drain_stable:
  assumes "loopStable P"
  shows "P s \<Longrightarrow> P (snd (drain b g s))"
proof (induction b arbitrary: g s)
  case 0
  then show ?case by simp
next
  case (Suc b)
  show ?case
  proof (cases "spawnQueue s")
    case Nil
    with Suc.prems show ?thesis by simp
  next
    case (Cons req rest)
    obtain g1 s1 where d: "drainStep req rest g s = (g1, s1)" by (cases "drainStep req rest g s")
    from drainStep_stable [OF assms Suc.prems, of req rest g] d have "P s1" by simp
    from Suc.IH [OF this, of g1] Cons d show ?thesis by simp
  qed
qed

lemma spawnPhase_stable:
  assumes "loopStable P" and "\<And>t a. P t \<Longrightarrow> P (t\<lparr>spawnAccum := a\<rparr>)" and "P s"
  shows "P (spawnPhase dt s)"
proof -
  have ri: "\<And>t k. P t \<Longrightarrow> P (t\<lparr>rndi := k\<rparr>)"
    using assms(1) by (auto simp: loopStable_def)
  obtain budget acc1
    where b: "spawnBudget (tickAccum dt s) (length (spawnQueue s)) = (budget, acc1)"
    by (cases "spawnBudget (tickAccum dt s) (length (spawnQueue s))")
  have "P (s\<lparr>rndi := rndi s + 1, spawnAccum := acc1\<rparr>)"
    using assms(2) [OF ri [OF assms(3)]] by simp
  from drain_stable [OF assms(1) this] b show ?thesis
    by (simp add: spawnPhase_def Let_def)
qed

section \<open>The integration pass\<close>

subsection \<open>Ageing of one slot\<close>

lemma ageLife_nonneg: "0 \<le> fst (ageLife L dt p)"
  by (simp add: ageLife_def Let_def)



subsection \<open>Integration of one slot\<close>

lemma integrateOne_life [simp]:
  "life (integrateOne s dt r0 r1 r2 r3 p) = fst (ageLife (lifeSeconds (config s)) dt p)"
  "fadeTimer (integrateOne s dt r0 r1 r2 r3 p) = fst (snd (ageLife (lifeSeconds (config s)) dt p))"
  "fadeDuration (integrateOne s dt r0 r1 r2 r3 p) = snd (snd (ageLife (lifeSeconds (config s)) dt p))"
  "gate (integrateOne s dt r0 r1 r2 r3 p) = gate p"
  by (simp_all add: integrateOne_def Let_def split: prod.splits)

lemma hypot_scale: "0 \<le> c \<Longrightarrow> hypot (a * c) (b * c) = hypot a b * c"
proof -
  assume c: "0 \<le> c"
  have "a * c * (a * c) + b * c * (b * c) = (a * a + b * b) * (c * c)"
    by (simp add: algebra_simps)
  then have "hypot (a * c) (b * c) = sqrt (a * a + b * b) * sqrt (c * c)"
    by (simp add: hypot_def real_sqrt_mult)
  with c show ?thesis by (simp add: hypot_def)
qed

subsection \<open>The integration pass over the pool\<close>

lemma fst_integrateAll_Cons:
  "fst (integrateAll s dt k (p # ps)) =
     (if life p \<le> 0 then p # fst (integrateAll s dt k ps)
      else integrateOne s dt (rnd s k) (rnd s (k + 1)) (rnd s (k + 2)) (rnd s (k + 3)) p
             # fst (integrateAll s dt (k + 4) ps))"
  by (simp add: case_prod_beta)

declare integrateAll.simps(2) [simp del]

lemma length_integrateAll: "length (fst (integrateAll s dt k ps)) = length ps"
  by (induction ps arbitrary: k) (simp_all add: fst_integrateAll_Cons)



lemma particles_integratePhase:
  "particles (integratePhase dt s) = fst (integrateAll s dt (rndi s) (particles s))"
  by (simp add: integratePhase_def split: prod.splits)

lemma integratePhase_frame:
  "config (integratePhase dt s) = config s"
  "points (integratePhase dt s) = points s"
  "beakerRadius (integratePhase dt s) = beakerRadius s"
  "bottomPlumeDisabled (integratePhase dt s) = bottomPlumeDisabled s"
  "spawnQueue (integratePhase dt s) = spawnQueue s"
  "debugForce (integratePhase dt s) = debugForce s"
  "water (integratePhase dt s) = water s"
  by (simp_all add: integratePhase_def split: prod.splits)

section \<open>The tick as a whole\<close>

lemma debugTick_stable:
  assumes "tickStable P" and "P s"
  shows "P (debugTick dt s)"
proof -
  have dt: "\<And>t a. P t \<Longrightarrow> P (t\<lparr>debugT := a\<rparr>)"
    and pt: "\<And>t u. P t \<Longrightarrow> P (t\<lparr>points := Some u\<rparr>)"
    and sq: "\<And>t q. P t \<Longrightarrow> P (t\<lparr>spawnQueue := q\<rparr>)"
    using assms(1) by (auto simp: tickStable_def loopStable_def)
  have en: "\<And>t. P t \<Longrightarrow> P (ensurePoints t)"
    using pt by (simp add: ensurePoints_def split: option.splits)
  have "\<And>t x z n. P t \<Longrightarrow> P (addSource x z n t)"
    using en sq by (simp add: addSource_def Let_def)
  with dt assms(2) show ?thesis by (simp add: debugTick_def)
qed

lemma updateSpawned_stable:
  assumes "tickStable P" and "P s"
  shows "P (updateSpawned dt s)"
proof -
  have ls: "loopStable P" and sa: "\<And>t a. P t \<Longrightarrow> P (t\<lparr>spawnAccum := a\<rparr>)"
    using assms(1) by (auto simp: tickStable_def)
  have p0: "P (debugTick dt s)" by (rule debugTick_stable [OF assms])
  show ?thesis
  proof (cases "points (debugTick dt s)")
    case None
    with p0 show ?thesis by (simp add: updateSpawned_def)
  next
    case (Some u)
    with spawnPhase_stable [OF ls sa p0] show ?thesis by (simp add: updateSpawned_def)
  qed
qed

lemma tickStableI:
  assumes "\<And>t x z c g. P t \<Longrightarrow> P (spawnParticle x z c g t)"
    and "\<And>t b. P t \<Longrightarrow> P (t\<lparr>bottomInjecting := b\<rparr>)"
    and "\<And>t k. P t \<Longrightarrow> P (t\<lparr>rndi := k\<rparr>)"
    and "\<And>t q. P t \<Longrightarrow> P (t\<lparr>spawnQueue := q\<rparr>)"
    and "\<And>t a. P t \<Longrightarrow> P (t\<lparr>spawnAccum := a\<rparr>)"
    and "\<And>t a. P t \<Longrightarrow> P (t\<lparr>debugT := a\<rparr>)"
    and "\<And>t u. P t \<Longrightarrow> P (t\<lparr>points := Some u\<rparr>)"
  shows "tickStable P"
  using assms unfolding tickStable_def loopStable_def by blast

lemma spawnParticle_frame:
  "config (spawnParticle x z c g s) = config s"
  "points (spawnParticle x z c g s) = points s"
  "beakerRadius (spawnParticle x z c g s) = beakerRadius s"
  "bottomPlumeDisabled (spawnParticle x z c g s) = bottomPlumeDisabled s"
  "water (spawnParticle x z c g s) = water s"
  "debugForce (spawnParticle x z c g s) = debugForce s"
  by (simp_all add: spawnParticle_def split: option.splits)

lemma updateSpawned_frame:
  "config (updateSpawned dt s) = config s"
  "beakerRadius (updateSpawned dt s) = beakerRadius s"
  "bottomPlumeDisabled (updateSpawned dt s) = bottomPlumeDisabled s"
  "water (updateSpawned dt s) = water s"
  "length (particles (updateSpawned dt s)) = length (particles s)"
proof -
  show "config (updateSpawned dt s) = config s"
    by (rule updateSpawned_stable [where P = "\<lambda>t. config t = config s"])
      (auto intro!: tickStableI simp: spawnParticle_frame)
  show "beakerRadius (updateSpawned dt s) = beakerRadius s"
    by (rule updateSpawned_stable [where P = "\<lambda>t. beakerRadius t = beakerRadius s"])
      (auto intro!: tickStableI simp: spawnParticle_frame)
  show "bottomPlumeDisabled (updateSpawned dt s) = bottomPlumeDisabled s"
    by (rule updateSpawned_stable [where P = "\<lambda>t. bottomPlumeDisabled t = bottomPlumeDisabled s"])
      (auto intro!: tickStableI simp: spawnParticle_frame)
  show "water (updateSpawned dt s) = water s"
    by (rule updateSpawned_stable [where P = "\<lambda>t. water t = water s"])
      (auto intro!: tickStableI simp: spawnParticle_frame)
  show "length (particles (updateSpawned dt s)) = length (particles s)"
    by (rule updateSpawned_stable [where P = "\<lambda>t. length (particles t) = length (particles s)"])
      (auto intro!: tickStableI simp: length_spawnParticle)
qed

lemma updateSpawned_points:
  assumes "points s \<noteq> None"
  shows "points (updateSpawned dt s) \<noteq> None"
  by (rule updateSpawned_stable [where P = "\<lambda>t. points t \<noteq> None"])
    (auto intro!: tickStableI simp: spawnParticle_frame assms)

lemma spawnPhase_points: "points (spawnPhase dt s) = points s"
  by (rule spawnPhase_stable [where P = "\<lambda>t. points t = points s"])
    (auto simp: loopStable_def spawnParticle_frame)

lemma update_split:
  "update dt s = (if points (updateSpawned dt s) = None then updateSpawned dt s
                  else integratePhase dt (updateSpawned dt s))"
  by (cases "points (debugTick dt s)")
    (simp_all add: update_def updateSpawned_def spawnPhase_points)

lemma debugTick_particles: "particles (debugTick dt s) = particles s"
  by (simp add: debugTick_def addSource_def ensurePoints_def Let_def split: option.splits)

lemma debugTick_points_None: "points (debugTick dt s) = None \<Longrightarrow> points s = None"
  by (simp add: debugTick_def addSource_def ensurePoints_def Let_def split: option.splits if_splits)


lemma update_frame:
  "config (update dt s) = config s"
  "beakerRadius (update dt s) = beakerRadius s"
  "bottomPlumeDisabled (update dt s) = bottomPlumeDisabled s"
  "water (update dt s) = water s"
  "length (particles (update dt s)) = length (particles s)"
  by (simp_all add: update_split integratePhase_frame updateSpawned_frame
      particles_integratePhase length_integrateAll)

lemma update_points:
  assumes "points s \<noteq> None"
  shows "points (update dt s) \<noteq> None"
  using updateSpawned_points [OF assms, of dt] by (simp add: update_split integratePhase_frame)





section \<open>The tick on the stored pool\<close>

subsection \<open>Rounding to binary32\<close>

lemma rne_error: "\<bar>of_int (rne y) - y\<bar> \<le> 1 / 2"
  unfolding rne_def Let_def by (simp; linarith)


lemma fround_0 [simp]: "fround 0 = 0"
  by (simp add: fround_def)


lemma fround_error: "\<bar>fround x - x\<bar> \<le> \<bar>x\<bar> / 2 ^ 24 + 1 / 2 ^ 150"
proof (cases "x = 0")
  case True
  then show ?thesis by simp
next
  case False
  define e where "e = max (- 126) \<lfloor>log 2 \<bar>x\<bar>\<rfloor>"
  define q :: real where "q = 2 powr (of_int e - 23)"
  have q: "0 < q" by (simp add: q_def)
  have fr: "fround x = of_int (rne (x / q)) * q"
    using False by (simp add: fround_def Let_def e_def q_def)
  have "fround x - x = (of_int (rne (x / q)) - x / q) * q"
    using q by (simp add: fr field_simps)
  then have "\<bar>fround x - x\<bar> = \<bar>of_int (rne (x / q)) - x / q\<bar> * q"
    using q by (simp add: abs_mult)
  also have "\<dots> \<le> (1 / 2) * q"
    using rne_error [of "x / q"] q by (intro mult_right_mono) simp_all
  finally have err: "\<bar>fround x - x\<bar> \<le> q / 2" by simp
  have two: "(2::real) powr (- 24) = 1 / 2 ^ 24" "(2::real) powr (- 150) = 1 / 2 ^ 150"
    by (simp_all add: powr_minus_divide)
  show ?thesis
  proof (cases "- 126 \<le> \<lfloor>log 2 \<bar>x\<bar>\<rfloor>")
    case True
    then have e: "e = \<lfloor>log 2 \<bar>x\<bar>\<rfloor>" by (simp add: e_def)
    have "of_int e \<le> log 2 \<bar>x\<bar>" by (simp add: e)
    then have "2 powr (of_int e) \<le> 2 powr (log 2 \<bar>x\<bar>)" by simp
    also have "\<dots> = \<bar>x\<bar>" using False by simp
    finally have le: "2 powr (of_int e) \<le> \<bar>x\<bar>" .
    have "2 powr (of_int e) * 2 powr (- 24) = 2 powr (of_int e - 23) * (2::real) powr (- 1)"
      by (simp only: powr_add [symmetric]) simp
    then have "q / 2 = 2 powr (of_int e) * 2 powr (- 24)"
      by (simp add: q_def powr_minus_divide)
    also have "\<dots> \<le> \<bar>x\<bar> * 2 powr (- 24)"
      using le by (intro mult_right_mono) simp_all
    finally have "q / 2 \<le> \<bar>x\<bar> / 2 ^ 24" by (simp add: two)
    with err show ?thesis by simp
  next
    case False
    then have e: "e = - 126" by (simp add: e_def)
    have "(2::real) powr (- 150) * 2 powr 1 = 2 powr (- 149)"
      by (simp only: powr_add [symmetric]) simp
    then have "q / 2 = 2 powr (- 150)"
      by (simp add: q_def e)
    then have "q / 2 = 1 / 2 ^ 150" by (simp add: two)
    with err have "\<bar>fround x - x\<bar> \<le> 1 / 2 ^ 150" by simp
    moreover have "0 \<le> \<bar>x\<bar> / 2 ^ 24" by simp
    ultimately show ?thesis by linarith
  qed
qed

lemma fround_at:
  assumes "1 / 2 ^ n \<le> \<bar>x\<bar>" and "\<bar>x\<bar> < 2 / 2 ^ n" and "n \<le> 126"
  shows "fround x = of_int (rne (x * 2 ^ (n + 23))) / 2 ^ (n + 23)"
proof -
  have pos: "0 < \<bar>x\<bar>"
    using assms(1) by (smt (verit) divide_pos_pos zero_less_power zero_less_one)
  then have nz: "x \<noteq> 0" by auto
  have p: "(2::real) powr (of_int (- int n)) = 1 / 2 ^ n"
    by (simp add: powr_minus_divide powr_realpow)
  have "(2::real) powr (of_int (- int n) + 1) = 2 powr (of_int (- int n)) * 2 powr 1"
    by (rule powr_add)
  then have p1: "(2::real) powr (of_int (- int n) + 1) = 2 / 2 ^ n"
    unfolding p by simp
  have "of_int (- int n) \<le> log 2 \<bar>x\<bar>"
    using pos assms(1) unfolding le_log_iff [OF _ pos, of 2, simplified] p by simp
  moreover have "log 2 \<bar>x\<bar> < of_int (- int n) + 1"
    using pos assms(2) unfolding log_less_iff [OF _ pos, of 2, simplified] p1 by simp
  ultimately have "\<lfloor>log 2 \<bar>x\<bar>\<rfloor> = - int n"
    by (rule floor_unique)
  then have e: "max (- 126) \<lfloor>log 2 \<bar>x\<bar>\<rfloor> = - int n" using assms(3) by simp
  have "(2::real) powr (of_int (- int n) - 23) = 2 powr (of_int (- int n)) / 2 powr 23"
    by (rule powr_diff)
  then have q: "(2::real) powr (of_int (- int n) - 23) = 1 / 2 ^ (n + 23)"
    unfolding p by (simp add: power_add)
  show ?thesis
    using nz by (simp add: fround_def Let_def e q del: of_int_minus)
qed

subsection \<open>Spawn loop and frame of the tick\<close>

lemma length_spawnParticle32:
  "length (particles (spawnParticle32 x z c g s)) = length (particles s)"
  by (simp add: spawnParticle32_def split: option.splits)

lemma spawnParticle32_alive_nth:
  assumes "alive (particles s ! i)"
  shows "particles (spawnParticle32 x z c g s) ! i = particles s ! i"
proof (cases "firstFree (particles s)")
  case None
  then show ?thesis by (simp add: spawnParticle32_def)
next
  case (Some idx)
  with firstFree_Some [OF Some] assms have "idx \<noteq> i" by auto
  with Some show ?thesis by (simp add: spawnParticle32_def)
qed

lemma spawnParticle32_frame:
  "config (spawnParticle32 x z c g s) = config s"
  "points (spawnParticle32 x z c g s) = points s"
  "beakerRadius (spawnParticle32 x z c g s) = beakerRadius s"
  "bottomPlumeDisabled (spawnParticle32 x z c g s) = bottomPlumeDisabled s"
  "water (spawnParticle32 x z c g s) = water s"
  "debugForce (spawnParticle32 x z c g s) = debugForce s"
  by (simp_all add: spawnParticle32_def split: option.splits)

lemma drainStep32_stable:
  assumes "loopStable32 P" and "P s"
  shows "P (snd (drainStep32 req rest g s))"
proof -
  have sp: "\<And>t x z c g. P t \<Longrightarrow> P (spawnParticle32 x z c g t)"
    and bi: "\<And>t b. P t \<Longrightarrow> P (t\<lparr>bottomInjecting := b\<rparr>)"
    and ri: "\<And>t k. P t \<Longrightarrow> P (t\<lparr>rndi := k\<rparr>)"
    and sq: "\<And>t q. P t \<Longrightarrow> P (t\<lparr>spawnQueue := q\<rparr>)"
    using assms(1) by (auto simp: loopStable32_def)
  define s1 where "s1 = (if req_bottom req then s\<lparr>bottomInjecting := True\<rparr> else s)"
  have p1: "P s1" using assms(2) bi by (simp add: s1_def)
  define thin where "thin = (real (activeCount s1) > maxActive (config s1) * (85 / 100))"
  define s2 where "s2 = (if thin then s1\<lparr>rndi := rndi s1 + 1\<rparr> else s1)"
  have p2: "P s2" using p1 ri by (simp add: s2_def)
  define allow1 where "allow1 = (\<not> (thin \<and> rnd s1 (rndi s1) < 5 / 10))"
  define gi where "gi = gridIndex s2 (req_x req) (req_z req)"
  define crowded where "crowded = (allow1 \<and> real (g ! gi) \<ge> maxPerCell (config s2))"
  define s3 where "s3 = (if crowded then s2\<lparr>rndi := rndi s2 + 1\<rparr> else s2)"
  have p3: "P s3" using p2 ri by (simp add: s3_def)
  define allow where "allow = (allow1 \<and>
     \<not> (crowded \<and> rnd s2 (rndi s2) < suppressionProbability (config s2)))"
  define s4 where "s4 = (if allow then spawnParticle32 (req_x req) (req_z req)
     (case req_rgb req of Some c \<Rightarrow> c | None \<Rightarrow> (1, 1, 1)) (\<not> req_bottom req) s3 else s3)"
  have p4: "P s4" using p3 sp by (simp add: s4_def)
  define s5 where "s5 = (if req_bottom req then s4\<lparr>bottomInjecting := False\<rparr> else s4)"
  have p5: "P s5" using p4 bi by (simp add: s5_def)
  have "snd (drainStep32 req rest g s) = s5\<lparr>spawnQueue :=
      (if req_count req - 1 \<le> 0 then rest else req\<lparr>req_count := req_count req - 1\<rparr> # rest)\<rparr>"
    unfolding drainStep32_def Let_def s5_def s4_def allow_def s3_def crowded_def gi_def
      allow1_def s2_def thin_def s1_def by simp
  with p5 sq show ?thesis by simp
qed

lemma drain32_stable:
  assumes "loopStable32 P"
  shows "P s \<Longrightarrow> P (snd (drain32 b g s))"
proof (induction b arbitrary: g s)
  case 0
  then show ?case by simp
next
  case (Suc b)
  show ?case
  proof (cases "spawnQueue s")
    case Nil
    with Suc.prems show ?thesis by simp
  next
    case (Cons req rest)
    obtain g1 s1 where d: "drainStep32 req rest g s = (g1, s1)" by (cases "drainStep32 req rest g s")
    from drainStep32_stable [OF assms Suc.prems, of req rest g] d have "P s1" by simp
    from Suc.IH [OF this, of g1] Cons d show ?thesis by simp
  qed
qed

lemma spawnPhase32_stable:
  assumes "loopStable32 P" and "\<And>t a. P t \<Longrightarrow> P (t\<lparr>spawnAccum := a\<rparr>)" and "P s"
  shows "P (spawnPhase32 dt s)"
proof -
  have ri: "\<And>t k. P t \<Longrightarrow> P (t\<lparr>rndi := k\<rparr>)"
    using assms(1) by (auto simp: loopStable32_def)
  obtain budget acc1
    where b: "spawnBudget (tickAccum dt s) (length (spawnQueue s)) = (budget, acc1)"
    by (cases "spawnBudget (tickAccum dt s) (length (spawnQueue s))")
  have "P (s\<lparr>rndi := rndi s + 1, spawnAccum := acc1\<rparr>)"
    using assms(2) [OF ri [OF assms(3)]] by simp
  from drain32_stable [OF assms(1) this] b show ?thesis
    by (simp add: spawnPhase32_def Let_def)
qed

lemma fst_integrateAll32_Cons:
  "fst (integrateAll32 s dt k (p # ps)) =
     (if life p \<le> 0 then p # fst (integrateAll32 s dt k ps)
      else integrateOne32 s dt (rnd s k) (rnd s (k + 1)) (rnd s (k + 2)) (rnd s (k + 3)) p
             # fst (integrateAll32 s dt (k + 4) ps))"
  by (simp add: case_prod_beta)

declare integrateAll32.simps(2) [simp del]

lemma length_integrateAll32: "length (fst (integrateAll32 s dt k ps)) = length ps"
  by (induction ps arbitrary: k) (simp_all add: fst_integrateAll32_Cons)

lemma integrateAll32_nth:
  "i < length ps \<Longrightarrow>
   \<exists>r0 r1 r2 r3. fst (integrateAll32 s dt k ps) ! i =
     (if life (ps ! i) \<le> 0 then ps ! i else integrateOne32 s dt r0 r1 r2 r3 (ps ! i))"
proof (induction ps arbitrary: k i)
  case Nil
  then show ?case by simp
next
  case (Cons p ps)
  show ?case
  proof (cases i)
    case 0
    show ?thesis
      unfolding 0 fst_integrateAll32_Cons by (cases "life p \<le> 0") (simp, simp, blast)
  next
    case (Suc j)
    with Cons.prems have j: "j < length ps" by simp
    show ?thesis
    proof (cases "life p \<le> 0")
      case True
      with Cons.IH [OF j, of k] show ?thesis
        unfolding Suc fst_integrateAll32_Cons by (auto split: if_splits)
    next
      case False
      with Cons.IH [OF j, of "k + 4"] show ?thesis
        unfolding Suc fst_integrateAll32_Cons by (auto split: if_splits)
    qed
  qed
qed

lemma particles_integratePhase32:
  "particles (integratePhase32 dt s) = fst (integrateAll32 s dt (rndi s) (particles s))"
  by (simp add: integratePhase32_def split: prod.splits)

lemma integratePhase32_frame:
  "config (integratePhase32 dt s) = config s"
  "points (integratePhase32 dt s) = points s"
  "beakerRadius (integratePhase32 dt s) = beakerRadius s"
  "bottomPlumeDisabled (integratePhase32 dt s) = bottomPlumeDisabled s"
  "spawnQueue (integratePhase32 dt s) = spawnQueue s"
  "debugForce (integratePhase32 dt s) = debugForce s"
  "water (integratePhase32 dt s) = water s"
  by (simp_all add: integratePhase32_def split: prod.splits)

lemma debugTick32_stable:
  assumes "tickStable32 P" and "P s"
  shows "P (debugTick dt s)"
proof -
  have dt: "\<And>t a. P t \<Longrightarrow> P (t\<lparr>debugT := a\<rparr>)"
    and pt: "\<And>t u. P t \<Longrightarrow> P (t\<lparr>points := Some u\<rparr>)"
    and sq: "\<And>t q. P t \<Longrightarrow> P (t\<lparr>spawnQueue := q\<rparr>)"
    using assms(1) by (auto simp: tickStable32_def loopStable32_def)
  have en: "\<And>t. P t \<Longrightarrow> P (ensurePoints t)"
    using pt by (simp add: ensurePoints_def split: option.splits)
  have "\<And>t x z n. P t \<Longrightarrow> P (addSource x z n t)"
    using en sq by (simp add: addSource_def Let_def)
  with dt assms(2) show ?thesis by (simp add: debugTick_def)
qed

lemma updateSpawned32_stable:
  assumes "tickStable32 P" and "P s"
  shows "P (updateSpawned32 dt s)"
proof -
  have ls: "loopStable32 P" and sa: "\<And>t a. P t \<Longrightarrow> P (t\<lparr>spawnAccum := a\<rparr>)"
    using assms(1) by (auto simp: tickStable32_def)
  have p0: "P (debugTick dt s)" by (rule debugTick32_stable [OF assms])
  show ?thesis
  proof (cases "points (debugTick dt s)")
    case None
    with p0 show ?thesis by (simp add: updateSpawned32_def)
  next
    case (Some u)
    with spawnPhase32_stable [OF ls sa p0] show ?thesis by (simp add: updateSpawned32_def)
  qed
qed

lemma tickStable32I:
  assumes "\<And>t x z c g. P t \<Longrightarrow> P (spawnParticle32 x z c g t)"
    and "\<And>t b. P t \<Longrightarrow> P (t\<lparr>bottomInjecting := b\<rparr>)"
    and "\<And>t k. P t \<Longrightarrow> P (t\<lparr>rndi := k\<rparr>)"
    and "\<And>t q. P t \<Longrightarrow> P (t\<lparr>spawnQueue := q\<rparr>)"
    and "\<And>t a. P t \<Longrightarrow> P (t\<lparr>spawnAccum := a\<rparr>)"
    and "\<And>t a. P t \<Longrightarrow> P (t\<lparr>debugT := a\<rparr>)"
    and "\<And>t u. P t \<Longrightarrow> P (t\<lparr>points := Some u\<rparr>)"
  shows "tickStable32 P"
  using assms unfolding tickStable32_def loopStable32_def by blast

lemma updateSpawned32_frame:
  "config (updateSpawned32 dt s) = config s"
  "beakerRadius (updateSpawned32 dt s) = beakerRadius s"
  "bottomPlumeDisabled (updateSpawned32 dt s) = bottomPlumeDisabled s"
  "water (updateSpawned32 dt s) = water s"
  "length (particles (updateSpawned32 dt s)) = length (particles s)"
proof -
  show "config (updateSpawned32 dt s) = config s"
    by (rule updateSpawned32_stable [where P = "\<lambda>t. config t = config s"])
      (auto intro!: tickStable32I simp: spawnParticle32_frame)
  show "beakerRadius (updateSpawned32 dt s) = beakerRadius s"
    by (rule updateSpawned32_stable [where P = "\<lambda>t. beakerRadius t = beakerRadius s"])
      (auto intro!: tickStable32I simp: spawnParticle32_frame)
  show "bottomPlumeDisabled (updateSpawned32 dt s) = bottomPlumeDisabled s"
    by (rule updateSpawned32_stable [where P = "\<lambda>t. bottomPlumeDisabled t = bottomPlumeDisabled s"])
      (auto intro!: tickStable32I simp: spawnParticle32_frame)
  show "water (updateSpawned32 dt s) = water s"
    by (rule updateSpawned32_stable [where P = "\<lambda>t. water t = water s"])
      (auto intro!: tickStable32I simp: spawnParticle32_frame)
  show "length (particles (updateSpawned32 dt s)) = length (particles s)"
    by (rule updateSpawned32_stable [where P = "\<lambda>t. length (particles t) = length (particles s)"])
      (auto intro!: tickStable32I simp: length_spawnParticle32)
qed

lemma updateSpawned32_points:
  assumes "points s \<noteq> None"
  shows "points (updateSpawned32 dt s) \<noteq> None"
  by (rule updateSpawned32_stable [where P = "\<lambda>t. points t \<noteq> None"])
    (auto intro!: tickStable32I simp: spawnParticle32_frame assms)

lemma spawnPhase32_points: "points (spawnPhase32 dt s) = points s"
  by (rule spawnPhase32_stable [where P = "\<lambda>t. points t = points s"])
    (auto simp: loopStable32_def spawnParticle32_frame)

lemma update32_split:
  "update32 dt s = (if points (updateSpawned32 dt s) = None then updateSpawned32 dt s
                  else integratePhase32 dt (updateSpawned32 dt s))"
  by (cases "points (debugTick dt s)")
    (simp_all add: update32_def updateSpawned32_def spawnPhase32_points)

lemma updateSpawned32_points_None:
  assumes "points (updateSpawned32 dt s) = None"
  shows "points s = None \<and> particles (updateSpawned32 dt s) = particles s"
proof -
  from assms have "points (debugTick dt s) = None"
    by (cases "points (debugTick dt s)") (simp_all add: updateSpawned32_def spawnPhase32_points)
  then show ?thesis
    by (simp add: updateSpawned32_def debugTick_points_None debugTick_particles)
qed

lemma update32_frame:
  "config (update32 dt s) = config s"
  "beakerRadius (update32 dt s) = beakerRadius s"
  "bottomPlumeDisabled (update32 dt s) = bottomPlumeDisabled s"
  "water (update32 dt s) = water s"
  "length (particles (update32 dt s)) = length (particles s)"
  by (simp_all add: update32_split integratePhase32_frame updateSpawned32_frame
      particles_integratePhase32 length_integrateAll32)


lemma update32_particles_cases:
  "particles (update32 dt s) =
     (if points (updateSpawned32 dt s) = None then particles s
      else fst (integrateAll32 (updateSpawned32 dt s) dt (rndi (updateSpawned32 dt s))
                 (particles (updateSpawned32 dt s))))"
  by (simp add: update32_split particles_integratePhase32 updateSpawned32_points_None)

lemma update32_Some:
  assumes "points (updateSpawned32 dt s) \<noteq> None"
  shows "update32 dt s = integratePhase32 dt (updateSpawned32 dt s)"
  using assms by (simp only: update32_split if_False)

lemma updateSpawned32_alive_slot:
  assumes "i < length (particles s)" and "alive (particles s ! i)"
  shows "particles (updateSpawned32 dt s) ! i = particles s ! i"
proof -
  let ?P = "\<lambda>t::diffusion. particles t ! i = particles s ! i"
  have "tickStable32 ?P"
  proof (rule tickStable32I)
    fix t x z c g
    assume p: "?P t"
    with assms(2) have "alive (particles t ! i)" by simp
    from spawnParticle32_alive_nth [OF this, of x z c g] p
    show "?P (spawnParticle32 x z c g t)" by simp
  qed simp_all
  from updateSpawned32_stable [OF this, of s dt] show ?thesis by simp
qed

subsection \<open>Ageing and integration of one stored slot\<close>


lemma ageLife32_gated:
  assumes "\<not> gate p < 5 / 10"
  shows "ageLife32 L dt p = (max 0 (fround (life p - dt / L)), fadeTimer p, fadeDuration p)"
  using assms by (simp add: ageLife32_def Let_def max_def)


lemma integrateOne32_life [simp]:
  "life (integrateOne32 s dt r0 r1 r2 r3 p) = fst (ageLife32 (lifeSeconds (config s)) dt p)"
  "fadeTimer (integrateOne32 s dt r0 r1 r2 r3 p) = fst (snd (ageLife32 (lifeSeconds (config s)) dt p))"
  "fadeDuration (integrateOne32 s dt r0 r1 r2 r3 p) = snd (snd (ageLife32 (lifeSeconds (config s)) dt p))"
  "gate (integrateOne32 s dt r0 r1 r2 r3 p) = gate p"
  by (simp_all add: integrateOne32_def Let_def split: prod.splits)

lemma integrateOne32_position:
  "px (integrateOne32 s dt r0 r1 r2 r3 p) =
     fst (clampXZ32 (beakerRadius s * (98 / 100)) (movedXZ32 s dt p))"
  "pz (integrateOne32 s dt r0 r1 r2 r3 p) =
     snd (clampXZ32 (beakerRadius s * (98 / 100)) (movedXZ32 s dt p))"
  by (simp_all add: integrateOne32_def Let_def)

lemma movedXZ32_config: "config t = config s \<Longrightarrow> movedXZ32 t dt p = movedXZ32 s dt p"
  by (simp add: movedXZ32_def)

subsection \<open>A live slot over one tick\<close>

lemma update32_alive_slot:
  assumes "points s \<noteq> None" and "i < length (particles s)" and "alive (particles s ! i)"
  shows "\<exists>r0 r1 r2 r3. particles (update32 dt s) ! i =
           integrateOne32 (updateSpawned32 dt s) dt r0 r1 r2 r3 (particles s ! i)"
proof -
  let ?t = "updateSpawned32 dt s"
  have pt: "points ?t \<noteq> None" by (rule updateSpawned32_points [OF assms(1)])
  have i: "i < length (particles ?t)" using assms(2) by (simp add: updateSpawned32_frame)
  have same: "particles ?t ! i = particles s ! i"
    by (rule updateSpawned32_alive_slot [OF assms(2,3)])
  from integrateAll32_nth [OF i, of ?t dt "rndi ?t"] assms(3) show ?thesis
    by (simp add: update32_Some [OF pt] particles_integratePhase32 same alive_def)
qed

lemma update32_aged:
  assumes "points s \<noteq> None" and "i < length (particles s)" and "alive (particles s ! i)"
  shows "lifeAt (update32 dt s) i = fst (ageLife32 (lifeSeconds (config s)) dt (particles s ! i))"
    and "fadeTimer (particles (update32 dt s) ! i) =
           fst (snd (ageLife32 (lifeSeconds (config s)) dt (particles s ! i)))"
    and "fadeDuration (particles (update32 dt s) ! i) =
           snd (snd (ageLife32 (lifeSeconds (config s)) dt (particles s ! i)))"
    and "gate (particles (update32 dt s) ! i) = gate (particles s ! i)"
    and "px (particles (update32 dt s) ! i) =
           fst (clampXZ32 (beakerRadius s * (98 / 100)) (movedXZ32 s dt (particles s ! i)))"
    and "pz (particles (update32 dt s) ! i) =
           snd (clampXZ32 (beakerRadius s * (98 / 100)) (movedXZ32 s dt (particles s ! i)))"
proof -
  from update32_alive_slot [OF assms, of dt]
  obtain r0 r1 r2 r3 where q: "particles (update32 dt s) ! i =
      integrateOne32 (updateSpawned32 dt s) dt r0 r1 r2 r3 (particles s ! i)"
    by blast
  have m: "movedXZ32 (updateSpawned32 dt s) dt (particles s ! i) = movedXZ32 s dt (particles s ! i)"
    by (rule movedXZ32_config) (simp add: updateSpawned32_frame)
  show "lifeAt (update32 dt s) i = fst (ageLife32 (lifeSeconds (config s)) dt (particles s ! i))"
    and "fadeTimer (particles (update32 dt s) ! i) =
           fst (snd (ageLife32 (lifeSeconds (config s)) dt (particles s ! i)))"
    and "fadeDuration (particles (update32 dt s) ! i) =
           snd (snd (ageLife32 (lifeSeconds (config s)) dt (particles s ! i)))"
    and "gate (particles (update32 dt s) ! i) = gate (particles s ! i)"
    and "px (particles (update32 dt s) ! i) =
           fst (clampXZ32 (beakerRadius s * (98 / 100)) (movedXZ32 s dt (particles s ! i)))"
    and "pz (particles (update32 dt s) ! i) =
           snd (clampXZ32 (beakerRadius s * (98 / 100)) (movedXZ32 s dt (particles s ! i)))"
    by (simp_all add: q lifeAt_def updateSpawned32_frame integrateOne32_position m)
qed

lemma update32_gated_step:
  assumes "points s \<noteq> None" and "i < length (particles s)" and "alive (particles s ! i)"
    and "\<not> gate (particles s ! i) < 5 / 10"
  shows "lifeAt (update32 dt s) i = max 0 (fround (lifeAt s i - dt / lifeSeconds (config s))) \<and>
         gate (particles (update32 dt s) ! i) = gate (particles s ! i)"
  using update32_aged(1,4) [OF assms(1-3), of dt] ageLife32_gated [OF assms(4)]
  by (simp add: lifeAt_def)

section \<open>Live particles stay inside the beaker\<close>

lemma hypot_triangle: "hypot (a + c) (b + d) \<le> hypot a b + hypot c d"
  using real_sqrt_sum_squares_triangle_ineq [of a c b d]
  by (simp add: hypot_def power2_eq_square)

lemma hypot_mono:
  assumes "\<bar>a\<bar> \<le> c" and "\<bar>b\<bar> \<le> d"
  shows "hypot a b \<le> hypot c d"
proof -
  have "a * a = \<bar>a\<bar> * \<bar>a\<bar>" "b * b = \<bar>b\<bar> * \<bar>b\<bar>" by simp_all
  moreover have "\<bar>a\<bar> * \<bar>a\<bar> \<le> c * c" using assms(1) by (intro mult_mono) simp_all
  moreover have "\<bar>b\<bar> * \<bar>b\<bar> \<le> d * d" using assms(2) by (intro mult_mono) simp_all
  ultimately have "a * a + b * b \<le> c * c + d * d" by linarith
  then show ?thesis by (simp add: hypot_def)
qed

lemma hypot_abs: "hypot \<bar>a\<bar> \<bar>b\<bar> = hypot a b"
  by (simp add: hypot_def)

lemma hypot_0: "hypot a 0 = \<bar>a\<bar>"
  by (simp add: hypot_def)

lemma hypot_stored:
  assumes "hypot x z \<le> c"
  shows "hypot (fround x) (fround z) \<le> c * (1 + 1 / 2 ^ 24) + 1 / 2 ^ 149"
proof -
  let ?e = "1 / 2 ^ 24 :: real" and ?d = "1 / 2 ^ 150 :: real"
  have "hypot (fround x) (fround z) = hypot (x + (fround x - x)) (z + (fround z - z))"
    by simp
  also have "\<dots> \<le> hypot x z + hypot (fround x - x) (fround z - z)"
    by (rule hypot_triangle)
  finally have a: "hypot (fround x) (fround z) \<le> hypot x z + hypot (fround x - x) (fround z - z)" .
  have "hypot (fround x - x) (fround z - z) \<le> hypot (\<bar>x\<bar> * ?e + ?d) (\<bar>z\<bar> * ?e + ?d)"
    by (rule hypot_mono) (use fround_error [of x] fround_error [of z] in simp_all)
  also have "\<dots> \<le> hypot (\<bar>x\<bar> * ?e) (\<bar>z\<bar> * ?e) + hypot ?d ?d"
    by (rule hypot_triangle)
  also have "hypot (\<bar>x\<bar> * ?e) (\<bar>z\<bar> * ?e) = hypot x z * ?e"
    using hypot_scale [of ?e "\<bar>x\<bar>" "\<bar>z\<bar>"] by (simp add: hypot_abs)
  finally have b: "hypot (fround x - x) (fround z - z) \<le> hypot x z * ?e + hypot ?d ?d"
    by simp
  have "hypot ?d ?d \<le> \<bar>?d\<bar> + \<bar>?d\<bar>"
    using sqrt_sum_squares_le_sum_abs [of ?d ?d] by (simp add: hypot_def power2_eq_square)
  then have d: "hypot ?d ?d \<le> 1 / 2 ^ 149" by simp
  have "hypot x z * ?e \<le> c * ?e"
    using assms by (intro mult_right_mono) simp_all
  with a b d assms have "hypot (fround x) (fround z) \<le> c + c * ?e + 1 / 2 ^ 149"
    by linarith
  then show ?thesis by (simp add: algebra_simps)
qed

lemma clampXZ32_bound:
  assumes "0 \<le> c"
  shows "hypot (fst (clampXZ32 c xz)) (snd (clampXZ32 c xz)) \<le> c * (1 + 1 / 2 ^ 24) + 1 / 2 ^ 149"
proof (cases "hypot (fst xz) (snd xz) > c")
  case True
  with assms have pos: "0 < hypot (fst xz) (snd xz)" by simp
  with assms have "0 \<le> c / hypot (fst xz) (snd xz)" by simp
  from hypot_scale [OF this, of "fst xz" "snd xz"] pos
  have "hypot (fst xz * (c / hypot (fst xz) (snd xz))) (snd xz * (c / hypot (fst xz) (snd xz))) \<le> c"
    by simp
  from hypot_stored [OF this] True show ?thesis
    by (simp add: clampXZ32_def Let_def)
next
  case False
  have "0 \<le> c * (1 / 2 ^ 24) + 1 / 2 ^ 149" using assms by simp
  with False show ?thesis by (simp add: clampXZ32_def Let_def algebra_simps)
qed

lemma integrateOne32_clamped:
  assumes "0 \<le> beakerRadius s"
  shows "hypot (px (integrateOne32 s dt r0 r1 r2 r3 p)) (pz (integrateOne32 s dt r0 r1 r2 r3 p))
           \<le> beakerRadius s * (98 / 100) * (1 + 1 / 2 ^ 24) + 1 / 2 ^ 149"
proof -
  have "0 \<le> beakerRadius s * (98 / 100)" using assms by simp
  from clampXZ32_bound [OF this] show ?thesis
    by (simp only: integrateOne32_position)
qed

lemma integrateAll32_clamped:
  assumes "0 \<le> beakerRadius s"
  shows "q \<in> set (fst (integrateAll32 s dt k ps)) \<Longrightarrow> alive q \<Longrightarrow>
         hypot (px q) (pz q) \<le> beakerRadius s * (98 / 100) * (1 + 1 / 2 ^ 24) + 1 / 2 ^ 149"
proof (induction ps arbitrary: k)
  case Nil
  then show ?case by simp
next
  case (Cons p ps)
  show ?case
  proof (cases "life p \<le> 0")
    case True
    with Cons.prems(1) have "q = p \<or> q \<in> set (fst (integrateAll32 s dt k ps))"
      by (simp add: fst_integrateAll32_Cons)
    then show ?thesis
    proof
      assume "q = p"
      with True Cons.prems(2) show ?thesis by (simp add: alive_def)
    next
      assume "q \<in> set (fst (integrateAll32 s dt k ps))"
      from Cons.IH [OF this] Cons.prems show ?thesis by simp
    qed
  next
    case False
    with Cons.prems(1) have "q = integrateOne32 s dt (rnd s k) (rnd s (k + 1)) (rnd s (k + 2)) (rnd s (k + 3)) p
        \<or> q \<in> set (fst (integrateAll32 s dt (k + 4) ps))"
      by (simp add: fst_integrateAll32_Cons)
    then show ?thesis
    proof
      assume "q = integrateOne32 s dt (rnd s k) (rnd s (k + 1)) (rnd s (k + 2)) (rnd s (k + 3)) p"
      with integrateOne32_clamped [OF assms] show ?thesis by simp
    next
      assume "q \<in> set (fst (integrateAll32 s dt (k + 4) ps))"
      from Cons.IH [OF this] Cons.prems show ?thesis by simp
    qed
  qed
qed

text \<open>
  C3, as amended: after every \<^verbatim>\<open>update(dt)\<close> call every alive plume particle
  (\<open>life > 0\<close>) has radial XZ distance from the beaker centre at most
  \<open>beakerRadius * 0.98\<close> up to the rounding of the two stored coordinates to binary32,
  that is at most \<open>beakerRadius * 0.98 * (1 + 2 ^ -24) + 2 ^ -149\<close>: the integration
  pass rescales the XZ position of an overflowing particle onto the circle of radius
  \<open>beakerRadius * 0.98\<close> and writes it to the \<^verbatim>\<open>Float32Array\<close>. The beaker radius is
  not negative, and no slot is alive before the point cloud exists.
\<close>

theorem update_radial_clamp:
  assumes "poolConsistent s" and "0 \<le> beakerRadius s"
  shows "\<forall>p \<in> set (particles (update32 dt s)).
           alive p \<longrightarrow>
           hypot (px p) (pz p) \<le> beakerRadius s * (98 / 100) * (1 + 1 / 2 ^ 24) + 1 / 2 ^ 149"
proof (cases "points (updateSpawned32 dt s) = None")
  case True
  then have "points s = None" and "particles (update32 dt s) = particles s"
    by (simp_all add: updateSpawned32_points_None update32_particles_cases)
  with assms(1) show ?thesis by (simp add: poolConsistent_def)
next
  case False
  have r: "0 \<le> beakerRadius (updateSpawned32 dt s)"
    using assms(2) by (simp add: updateSpawned32_frame)
  show ?thesis
  proof (intro ballI impI)
    fix p
    assume al: "alive p"
    assume "p \<in> set (particles (update32 dt s))"
    moreover from False have "particles (update32 dt s) =
        fst (integrateAll32 (updateSpawned32 dt s) dt (rndi (updateSpawned32 dt s))
                 (particles (updateSpawned32 dt s)))"
      by (simp only: update32_particles_cases if_False)
    ultimately have "p \<in> set (fst (integrateAll32 (updateSpawned32 dt s) dt (rndi (updateSpawned32 dt s))
                 (particles (updateSpawned32 dt s))))"
      by simp
    from integrateAll32_clamped [OF r this al]
    show "hypot (px p) (pz p) \<le> beakerRadius s * (98 / 100) * (1 + 1 / 2 ^ 24) + 1 / 2 ^ 149"
      by (simp add: alive_def updateSpawned32_frame)
  qed
qed

theorem update_radial_clamp_witness:
  "poolConsistent (poolOf [farSlot, bottomSlot]) \<and>
   0 \<le> beakerRadius (poolOf [farSlot, bottomSlot]) \<and>
   hypot (px (particles (poolOf [farSlot, bottomSlot]) ! 0))
     (pz (particles (poolOf [farSlot, bottomSlot]) ! 0)) = 5 \<and>
   alive (particles (update32 (1 / 60) (poolOf [farSlot, bottomSlot])) ! 0) \<and>
   hypot (px (particles (update32 (1 / 60) (poolOf [farSlot, bottomSlot])) ! 0))
     (pz (particles (update32 (1 / 60) (poolOf [farSlot, bottomSlot])) ! 0))
     \<le> 98 / 100 * (1 + 1 / 2 ^ 24) + 1 / 2 ^ 149"
proof -
  let ?s = "poolOf [farSlot, bottomSlot]"
  have h1: "poolConsistent ?s"
    by (simp add: poolConsistent_def poolOf_def)
  have h2: "0 \<le> beakerRadius ?s"
    by (simp add: poolOf_def manager0_def createDiffusionManager_def)
  have "sqrt 25 = sqrt (5 * 5)" by simp
  then have h3: "hypot (px (particles ?s ! 0)) (pz (particles ?s ! 0)) = 5"
    unfolding hypot_def farSlot_def poolOf_def by (simp del: real_sqrt_mult_self)
  have r: "beakerRadius ?s = 1"
    by (simp add: poolOf_def manager0_def createDiffusionManager_def)
  have pt: "points ?s \<noteq> None" by (simp add: poolOf_def)
  have len: "0 < length (particles ?s)" by (simp add: poolOf_def)
  have al: "alive (particles ?s ! 0)" by (simp add: poolOf_def alive_def farSlot_def)
  have g: "\<not> gate (particles ?s ! 0) < 5 / 10" by (simp add: poolOf_def farSlot_def)
  have l: "lifeAt ?s 0 - (1 / 60) / lifeSeconds (config ?s) = 125 / 126"
    by (simp add: lifeAt_def poolOf_def farSlot_def manager0_def
        createDiffusionManager_def plumeConfig0_def)
  have f: "fround (125 / 126) = 16644063 / 2 ^ 24"
    using fround_at [of 1 "125 / 126"] by (simp add: rne_def)
  have "lifeAt (update32 (1 / 60) ?s) 0 = max 0 (fround (125 / 126))"
    using update32_gated_step [OF pt len al g, of "1 / 60"] unfolding l by blast
  then have al': "alive (particles (update32 (1 / 60) ?s) ! 0)"
    unfolding f by (simp add: lifeAt_def alive_def)
  have "particles (update32 (1 / 60) ?s) ! 0 \<in> set (particles (update32 (1 / 60) ?s))"
    using len by (simp add: update32_frame)
  with update_radial_clamp [OF h1 h2, of "1 / 60"] al'
  have "hypot (px (particles (update32 (1 / 60) ?s) ! 0))
     (pz (particles (update32 (1 / 60) ?s) ! 0)) \<le> 98 / 100 * (1 + 1 / 2 ^ 24) + 1 / 2 ^ 149"
    unfolding r by simp
  with h1 h2 h3 al' show ?thesis by blast
qed

text \<open>
  The claim as stated fails: the clamp writes the rescaled position to the
  \<^verbatim>\<open>Float32Array\<close>, and the stored value can lie outside the bound. A live particle
  at rest at \<open>(1, 0)\<close> in a beaker of radius 1 is rescaled by 0.98, and the binary32
  value nearest to 0.98 is \<open>8220836 / 2 ^ 23 = 0.9800000190734863\<close>.
\<close>

theorem stored_position_exceeds_clamp:
  "poolConsistent (poolOf [edgeSlot]) \<and> beakerRadius (poolOf [edgeSlot]) = 1 \<and>
   alive (particles (update32 (1 / 60) (poolOf [edgeSlot])) ! 0) \<and>
   px (particles (update32 (1 / 60) (poolOf [edgeSlot])) ! 0) = 8220836 / 2 ^ 23 \<and>
   pz (particles (update32 (1 / 60) (poolOf [edgeSlot])) ! 0) = 0 \<and>
   beakerRadius (poolOf [edgeSlot]) * (98 / 100)
     < hypot (px (particles (update32 (1 / 60) (poolOf [edgeSlot])) ! 0))
         (pz (particles (update32 (1 / 60) (poolOf [edgeSlot])) ! 0))"
proof -
  let ?s = "poolOf [edgeSlot]"
  let ?q = "particles (update32 (1 / 60) ?s) ! 0"
  have h1: "poolConsistent ?s"
    by (simp add: poolConsistent_def poolOf_def)
  have r: "beakerRadius ?s = 1"
    by (simp add: poolOf_def manager0_def createDiffusionManager_def)
  have pt: "points ?s \<noteq> None" by (simp add: poolOf_def)
  have len: "0 < length (particles ?s)" by (simp add: poolOf_def)
  have p: "particles ?s ! 0 = edgeSlot" by (simp add: poolOf_def)
  have al: "alive (particles ?s ! 0)" unfolding p by (simp add: alive_def edgeSlot_def)
  have g: "\<not> gate (particles ?s ! 0) < 5 / 10" unfolding p by (simp add: edgeSlot_def)
  have l: "lifeAt ?s 0 - (1 / 60) / lifeSeconds (config ?s) = 125 / 126"
    unfolding lifeAt_def p
    by (simp add: edgeSlot_def poolOf_def manager0_def
        createDiffusionManager_def plumeConfig0_def)
  have f: "fround (125 / 126) = 16644063 / 2 ^ 24"
    using fround_at [of 1 "125 / 126"] by (simp add: rne_def)
  have "lifeAt (update32 (1 / 60) ?s) 0 = max 0 (fround (125 / 126))"
    using update32_gated_step [OF pt len al g, of "1 / 60"] unfolding l by blast
  then have al': "alive ?q"
    unfolding f by (simp add: lifeAt_def alive_def)
  have one: "fround 1 = 1"
    using fround_at [of 0 1] by (simp add: rne_def)
  have m: "movedXZ32 ?s (1 / 60) edgeSlot = (1, 0)"
    by (simp add: movedXZ32_def edgeSlot_def slot0_def one)
  have f98: "fround (49 / 50) = 8220836 / 2 ^ 23"
    using fround_at [of 1 "49 / 50"] by (simp add: rne_def)
  have c: "clampXZ32 (1 * (98 / 100)) (1, 0) = (8220836 / 2 ^ 23, 0)"
    by (simp add: clampXZ32_def hypot_def f98)
  have x: "px ?q = 8220836 / 2 ^ 23" and z: "pz ?q = 0"
    using update32_aged(5,6) [OF pt len al, of "1 / 60"]
    unfolding p r m c by simp_all
  have "hypot (px ?q) (pz ?q) = 8220836 / 2 ^ 23"
    unfolding x z hypot_0 by simp
  with h1 r al' x z show ?thesis by simp
qed

section \<open>The cap on live particles\<close>

lemma activeCount_simps [simp]:
  "activeCount (s\<lparr>bottomInjecting := b\<rparr>) = activeCount s"
  "activeCount (s\<lparr>rndi := k\<rparr>) = activeCount s"
  "activeCount (s\<lparr>spawnQueue := q\<rparr>) = activeCount s"
  "activeCount (s\<lparr>spawnAccum := a\<rparr>) = activeCount s"
  "activeCount (s\<lparr>debugT := a\<rparr>) = activeCount s"
  "activeCount (s\<lparr>points := u\<rparr>) = activeCount s"
  by (simp_all add: activeCount_def)












subsection \<open>A cap that is not a whole number\<close>







section \<open>Life only goes down\<close>






section \<open>Fading the bottom plume\<close>








subsection \<open>Ticks whose \<open>dt\<close> values sum to the duration\<close>



section \<open>The spawn budget of a tick\<close>

text \<open>
  C9, as amended: in \<^verbatim>\<open>update(dt)\<close> the per-tick spawn budget is the floor of the
  fractional spawn accumulator, and when that floor is zero (the accumulator is at least
  0 and below 1) but the spawn queue is non-empty, a budget of 1 is forced for that tick
  and the accumulator is reset to 0.
\<close>

theorem spawn_budget_floor_or_forced:
  "tickBudget dt s =
     (if \<lfloor>tickAccum dt s\<rfloor> = 0 \<and> spawnQueue s \<noteq> [] then 1 else \<lfloor>tickAccum dt s\<rfloor>) \<and>
   spawnPhase dt s =
     snd (drain (nat (tickBudget dt s)) (buildGrid s)
       (s\<lparr>rndi := rndi s + 1,
          spawnAccum :=
            (if \<lfloor>tickAccum dt s\<rfloor> = 0 \<and> spawnQueue s \<noteq> [] then 0
             else if 0 < \<lfloor>tickAccum dt s\<rfloor> then tickAccum dt s - of_int \<lfloor>tickAccum dt s\<rfloor>
             else tickAccum dt s)\<rparr>))"
  by (simp add: tickBudget_def spawnPhase_def spawnBudget_def Let_def)

theorem spawn_budget_floor_or_forced_witness:
  "tickAccum (1 / 2) oneQueued = 3 \<and> tickBudget (1 / 2) oneQueued = 3"
proof -
  have a: "tickAccum (1 / 2) oneQueued = 3"
    by (simp add: tickAccum_def oneQueued_def addSource_def ensurePoints_def manager0_def
        createDiffusionManager_def plumeConfig0_def Let_def)
  have "\<lfloor>tickAccum (1 / 2) oneQueued\<rfloor> = 3" unfolding a by simp
  with spawn_budget_floor_or_forced [of "1 / 2" oneQueued] a show ?thesis by simp
qed

text \<open>
  The claim as stated fails: with an accumulator of one tenth, not zero, and one queued
  request the budget is 1 and not the floor 0.
\<close>

theorem spawn_budget_counterexample:
  "tickAccum (1 / 60) oneQueued = 1 / 10 \<and> spawnQueue oneQueued \<noteq> [] \<and>
   \<lfloor>tickAccum (1 / 60) oneQueued\<rfloor> = 0 \<and> tickBudget (1 / 60) oneQueued = 1"
proof -
  have a: "tickAccum (1 / 60) oneQueued = 1 / 10"
    by (simp add: tickAccum_def oneQueued_def addSource_def ensurePoints_def manager0_def
        createDiffusionManager_def plumeConfig0_def Let_def)
  have q: "spawnQueue oneQueued \<noteq> []"
    by (simp add: oneQueued_def addSource_def Let_def)
  have f: "\<lfloor>tickAccum (1 / 60) oneQueued\<rfloor> = 0" unfolding a by simp
  from q f have "tickBudget (1 / 60) oneQueued = 1"
    by (simp add: tickBudget_def spawnBudget_def Let_def)
  with a q f show ?thesis by blast
qed

section \<open>The global concentration\<close>

lemma step_conc:
  assumes "water s = Some w"
  shows "globalConcentration (step dt img s) =
     (if \<not> stepExecutes dt s then uGlobalConc w
      else if tickMean dt img s > 1 / 100
        then uGlobalConc w * (985 / 1000) + tickTarget dt img s * (1 - 985 / 1000)
        else max (uGlobalConc w * (999 / 1000)) (tickTarget dt img s))"
  using assms
  by (simp add: step_def stepExecutes_def tickMean_def tickTarget_def globalConcentration_def
      Let_def)

lemma tickTarget_le: "tickTarget dt img s \<le> 1"
  by (simp add: tickTarget_def)

text \<open>
  C6, as amended: the derived global concentration stays within 0 and 1 over every
  \<^verbatim>\<open>step(dt)\<close> call; on an executed tick whose mean intensity is not above the 0.01
  threshold it becomes the larger of 0.999 times its value and the target
  \<open>min 1 (2.5 * mean)\<close>, so it is strictly decreasing exactly when it is positive and
  above that target.
\<close>

theorem globalConcentration_bounds:
  assumes "0 \<le> globalConcentration s" and "globalConcentration s \<le> 1"
  shows "0 \<le> globalConcentration (step dt img s) \<and> globalConcentration (step dt img s) \<le> 1 \<and>
         (water s \<noteq> None \<and> stepExecutes dt s \<and> tickMean dt img s \<le> 1 / 100 \<longrightarrow>
            globalConcentration (step dt img s)
              = max (globalConcentration s * (999 / 1000)) (tickTarget dt img s) \<and>
            (globalConcentration (step dt img s) < globalConcentration s
              \<longleftrightarrow> 0 < globalConcentration s \<and> tickTarget dt img s < globalConcentration s))"
proof (cases "water s")
  case None
  then have "globalConcentration (step dt img s) = 0"
    by (simp add: step_def globalConcentration_def Let_def)
  with None show ?thesis by simp
next
  case (Some w)
  then have c: "globalConcentration s = uGlobalConc w" by (simp add: globalConcentration_def)
  note sc = step_conc [OF Some, of dt img]
  let ?t = "tickTarget dt img s"
  have t1: "?t \<le> 1" by (rule tickTarget_le)
  show ?thesis
  proof (cases "stepExecutes dt s")
    case False
    with sc assms c show ?thesis by simp
  next
    case ex: True
    show ?thesis
    proof (cases "tickMean dt img s > 1 / 100")
      case True
      then have "0 \<le> ?t" by (simp add: tickTarget_def)
      with t1 assms c have "0 \<le> uGlobalConc w * (985 / 1000) + ?t * (1 - 985 / 1000)"
        and "uGlobalConc w * (985 / 1000) + ?t * (1 - 985 / 1000) \<le> 1"
        by simp_all
      with sc ex True show ?thesis by simp
    next
      case False
      with sc ex have e: "globalConcentration (step dt img s) = max (uGlobalConc w * (999 / 1000)) ?t"
        by simp
      from assms c have "0 \<le> uGlobalConc w * (999 / 1000)" and "uGlobalConc w * (999 / 1000) \<le> 1"
        by simp_all
      with e t1 assms c show ?thesis by (auto simp: max_def)
    qed
  qed
qed

theorem globalConcentration_bounds_witness:
  "0 \<le> globalConcentration tintedManager \<and> globalConcentration tintedManager \<le> 1 \<and>
   water tintedManager \<noteq> None \<and> stepExecutes (4 / 100) tintedManager \<and>
   tickMean (4 / 100) [] tintedManager \<le> 1 / 100 \<and>
   globalConcentration (step (4 / 100) [] tintedManager) \<le> 1 \<and>
   globalConcentration (step (4 / 100) [] tintedManager) < globalConcentration tintedManager"
proof -
  have c: "globalConcentration tintedManager = 1 / 2"
    by (simp add: globalConcentration_def tintedManager_def bindUniforms_def)
  have h1: "0 \<le> globalConcentration tintedManager" and h2: "globalConcentration tintedManager \<le> 1"
    by (simp_all add: c)
  have h3: "water tintedManager \<noteq> None" by (simp add: tintedManager_def bindUniforms_def)
  have h4: "stepExecutes (4 / 100) tintedManager"
    by (simp add: stepExecutes_def tintedManager_def bindUniforms_def manager0_def
        createDiffusionManager_def)
  have m: "tickMean (4 / 100) [] tintedManager = 0"
    by (simp add: tickMean_def tintedManager_def bindUniforms_def manager0_def
        createDiffusionManager_def)
  then have h5: "tickMean (4 / 100) [] tintedManager \<le> 1 / 100" by simp
  have t: "tickTarget (4 / 100) [] tintedManager < globalConcentration tintedManager"
    unfolding tickTarget_def m c by simp
  from globalConcentration_bounds [OF h1 h2, of "4 / 100" "[]"] h3 h4 h5 t c
  have "globalConcentration (step (4 / 100) [] tintedManager) \<le> 1"
    and "globalConcentration (step (4 / 100) [] tintedManager) < globalConcentration tintedManager"
    by simp_all
  with h1 h2 h3 h4 h5 show ?thesis by blast
qed

text \<open>
  The claim as stated fails: on the freshly bound manager an executed tick with mean
  intensity 0 leaves the concentration at 0, which is not a strict decrease.
\<close>

theorem globalConcentration_counterexample:
  "stepExecutes (4 / 100) boundManager \<and> tickMean (4 / 100) [] boundManager < 1 / 100 \<and>
   globalConcentration boundManager = 0 \<and>
   \<not> globalConcentration (step (4 / 100) [] boundManager) < globalConcentration boundManager"
  by (simp add: stepExecutes_def tickMean_def step_def globalConcentration_def boundManager_def
      bindUniforms_def manager0_def createDiffusionManager_def Let_def)

section \<open>The lockout of bottom plumes\<close>

lemma exec_disabled:
  assumes "c \<noteq> EnableBottomPlumes" and "bottomPlumeDisabled s"
  shows "bottomPlumeDisabled (exec c s)"
  using assms
  by (cases c)
    (simp_all add: addSource_def addBottomSource_def ensurePoints_def update_frame step_def
      setPlumeConfig_def applyPlumeUniforms_def
      disableBottomPlumes_def fadeOutBottomPlumes_def clearPlume_def
      clearBottomPlumeParticles_def reset_def setBottomPlumeOffset_def bindUniforms_def Let_def
      split: option.splits bool.splits)

lemma run_disabled:
  "EnableBottomPlumes \<notin> set cs \<Longrightarrow> bottomPlumeDisabled s \<Longrightarrow> bottomPlumeDisabled (run cs s)"
proof (induction cs arbitrary: s)
  case Nil
  then show ?case by simp
next
  case (Cons c cs)
  from Cons.prems(1) have "c \<noteq> EnableBottomPlumes" by auto
  from exec_disabled [OF this Cons.prems(2)] Cons.IH [of "exec c s"] Cons.prems(1)
  show ?case by simp
qed

text \<open>
  C8: \<^verbatim>\<open>disableBottomPlumes({clearExistingQueue:true})\<close> removes every queued bottom
  request from the spawn queue and keeps the others (a queue holding only bottom requests
  becomes empty), and after \<^verbatim>\<open>disableBottomPlumes\<close> every \<^verbatim>\<open>addBottomSource\<close> call
  returns the state unchanged, whatever calls were made in between, until
  \<^verbatim>\<open>enableBottomPlumes()\<close> is called.
\<close>

theorem disableBottomPlumes_lockout:
  "spawnQueue (disableBottomPlumes True s) = filter (\<lambda>q. \<not> req_bottom q) (spawnQueue s) \<and>
   ((\<forall>q \<in> set (spawnQueue s). req_bottom q) \<longrightarrow> spawnQueue (disableBottomPlumes True s) = []) \<and>
   (EnableBottomPlumes \<notin> set cs \<longrightarrow>
      addBottomSource x z n rgb st (run cs (disableBottomPlumes b s))
        = run cs (disableBottomPlumes b s))"
proof -
  have "bottomPlumeDisabled (disableBottomPlumes b s)"
    by (simp add: disableBottomPlumes_def Let_def)
  from run_disabled [OF _ this]
  have "EnableBottomPlumes \<notin> set cs \<Longrightarrow>
      addBottomSource x z n rgb st (run cs (disableBottomPlumes b s))
        = run cs (disableBottomPlumes b s)"
    by (simp add: addBottomSource_def)
  then show ?thesis
    by (auto simp: disableBottomPlumes_def Let_def filter_empty_conv)
qed

theorem disableBottomPlumes_lockout_witness:
  "length (spawnQueue fiveBottom) = 5 \<and> list_all req_bottom (spawnQueue fiveBottom) \<and>
   spawnQueue (disableBottomPlumes True fiveBottom) = [] \<and>
   EnableBottomPlumes \<notin> set [Update (1 / 60), AddSource 0 0 60] \<and>
   addBottomSource 0 0 18 (0, 0, 1) powderStyle
       (run [Update (1 / 60), AddSource 0 0 60] (disableBottomPlumes True fiveBottom))
     = run [Update (1 / 60), AddSource 0 0 60] (disableBottomPlumes True fiveBottom)"
proof -
  have q: "spawnQueue fiveBottom = replicate 5
      \<lparr> req_x = 0, req_z = 0, req_count = 18, req_bottom = True,
        req_style = Some powderStyle, req_rgb = Some (0, 0, 1) \<rparr>"
    by (simp add: fiveBottom_def numeral_eq_Suc addBottomSource_def ensurePoints_def manager0_def
        createDiffusionManager_def Let_def)
  have h1: "\<forall>q \<in> set (spawnQueue fiveBottom). req_bottom q" by (simp add: q)
  then have h0: "list_all req_bottom (spawnQueue fiveBottom)" by (simp only: list_all_iff)
  have h3: "length (spawnQueue fiveBottom) = 5" by (simp add: q)
  have h2: "EnableBottomPlumes \<notin> set [Update (1 / 60), AddSource 0 0 60]" by simp
  from disableBottomPlumes_lockout [of fiveBottom "[Update (1 / 60), AddSource 0 0 60]"
      0 0 18 "(0, 0, 1)" powderStyle True] h1 h2 h0 h3
  show ?thesis by blast
qed

section \<open>Powder: no indicator, no plume\<close>

lemma enterEffects_no_bottom: "filter isBottomCall (enterEffects b) = []"
proof -
  have "enterEffects b = [] \<or> (\<exists>x y z. enterEffects b = [EnterWater x y z])"
    unfolding enterEffects_def
    by (cases "stateWaterSurfaceY b"; cases "find (\<lambda>g. inWaterAt b (posY b + gy g)) (grains b)";
        cases "\<not> enterNotified b \<and> onEnterWater b") simp_all
  then show ?thesis by auto
qed

lemma batchEffects_no_bottom: "filter isBottomCall (batchEffects b) = []"
  by (simp add: batchEffects_def enterEffects_no_bottom)

lemma entered_no_bottom: "filter isBottomCall (concat (map batchEffects bs)) = []"
  by (induction bs) (simp_all add: batchEffects_no_bottom)

lemma fallback_no_bottom: "filter isBottomCall (fallbackSources rand i w k) = []"
  by (induction k arbitrary: i) (simp_all add: Let_def)

lemma burst_gated:
  assumes "indicatorEnabled d = Some False"
  shows "filter isBottomCall (burst d pH rand bs) = []"
  using assms by (simp add: burst_def fallback_no_bottom split: option.splits)

text \<open>
  C1: if \<^verbatim>\<open>isIndicatorEnabled()\<close> returns false, a call of the powder's \<^verbatim>\<open>update(dt)\<close>
  makes no call of the diffusion manager's \<^verbatim>\<open>addBottomSource\<close>, for every batch and
  every count of settled grains.
\<close>

theorem no_indicator_no_bottom_source:
  assumes "diffusionHandle ps = Some d" and "indicatorEnabled d = Some False"
  shows "filter isBottomCall (snd (powderUpdate dt pH rand ps)) = []"
  using assms
  by (simp add: powderUpdate_def Let_def entered_no_bottom burst_gated)

lemma settledBatch_count: "settledCount settledBatch = 25"
  by (simp add: settledCount_def settledBatch_def exampleBatch_def restingGrain_def)

theorem no_indicator_no_bottom_source_witness:
  "diffusionHandle (examplePowder [settledBatch] (handleOf boundManager)) = Some (handleOf boundManager) \<and>
   indicatorEnabled (handleOf boundManager) = Some False \<and>
   settledCount settledBatch = 25 \<and>
   filter isBottomCall
     (snd (powderUpdate (2 / 10) None (\<lambda>k. 1 / 2)
        (examplePowder [settledBatch] (handleOf boundManager)))) = []"
proof -
  have h1: "diffusionHandle (examplePowder [settledBatch] (handleOf boundManager))
      = Some (handleOf boundManager)"
    by (simp add: examplePowder_def)
  have h2: "indicatorEnabled (handleOf boundManager) = Some False"
    by (simp add: handleOf_def isIndicatorEnabled_def boundManager_def bindUniforms_def)
  from no_indicator_no_bottom_source [OF h1 h2] h1 h2 settledBatch_count show ?thesis
    by blast
qed

text \<open>With the indicator on, the same tick does emit a bottom source.\<close>

lemma indicator_on_emits:
  "snd (powderUpdate (2 / 10) None (\<lambda>k. 1 / 2)
     (examplePowder [settledBatch] \<lparr> hasAddBottomSource = True, indicatorEnabled = Some True \<rparr>))
   = [CallAddBottomSource 0 0 18 0x0b3c88
        \<lparr> ignoreIndicator = False, saturation = 70 / 100, opacity = 23 / 100, brightness = 1 \<rparr>]"
proof -
  have u: "updateBatch (2 / 10) settledBatch = settledBatch"
    by (simp add: updateBatch_def settledBatch_def exampleBatch_def)
  have c: "centroidLocal settledBatch = (0, 0)"
    by (simp add: centroidLocal_def centroidWorld_def settledBatch_def exampleBatch_def
        restingGrain_def Let_def sum_list_replicate)
  have e: "batchEffects settledBatch = []"
    by (simp add: batchEffects_def settledBatch_def exampleBatch_def)
  have v: "visible settledBatch" and d: "\<not> dropping settledBatch"
    by (simp_all add: settledBatch_def exampleBatch_def)
  have s: "\<not> swirling settledBatch" by (simp add: settledBatch_def exampleBatch_def)
  have m: "map (updateBatch (2 / 10)) [settledBatch] = [settledBatch]" by (simp only: list.map u)
  show ?thesis
    unfolding powderUpdate_def examplePowder_def Let_def powder.simps m
    by (simp add: e s burst_def v d settledBatch_count c plumeSpawnInterval_def
        plumePerBurst_def reactionColor_def)
qed

section \<open>Powder: the end of dropping\<close>

lemma dropGrain_settled:
  "settled (fst (dropGrain dt b g)) = (settled g \<or> snd (dropGrain dt b g))"
  by (simp add: dropGrain_def Let_def)

lemma dropGrain_hit_rest:
  assumes "snd (dropGrain dt b g)"
  shows "gy (fst (dropGrain dt b g)) = (bottomYWorld b + 1 / 100) - posY b \<and>
         gvy (fst (dropGrain dt b g)) = 0"
  using assms by (simp add: dropGrain_def Let_def)

lemma snd_dropGrain: "snd (dropGrain dt b g) = dropHit dt b g"
  by (simp add: dropGrain_def Let_def)

lemma dropGrain_rest_hits:
  assumes "gy g = (bottomYWorld b + 1 / 100) - posY b" and "gvy g = 0"
  shows "snd (dropGrain dt b g)"
proof -
  have sq: "0 \<le> dt * dt" by simp
  have "fallVy dt b g * dt = - 6 * (dt * dt) \<or> fallVy dt b g * dt = - (3069 / 1000) * (dt * dt)"
    by (simp add: fallVy_def Let_def assms(2) algebra_simps)
  with sq have "fallVy dt b g * dt \<le> 0" by auto
  then show ?thesis
    by (simp add: snd_dropGrain dropHit_def assms(1) mult.commute)
qed


lemma dropPhase_fields:
  "dropElapsed (dropPhase dt b) = dropElapsed b + dt"
  "dropping (dropPhase dt b) =
     (\<not> (hitFracReached (bottomHits dt b) (length (grains b)) \<or> dropElapsed b + dt \<ge> 8))"
  "length (grains (dropPhase dt b)) = length (grains b)"
  "swirling (dropPhase dt b) = swirling b"
  "dissolveActive (dropPhase dt b) = dissolveActive b"
  "bottomYWorld (dropPhase dt b) = bottomYWorld b"
  "posY (dropPhase dt b) = posY b"
  by (simp_all add: dropPhase_def Let_def)

lemma swirlGrain_settled: "settled (swirlGrain dt b st inw dr g) = settled g"
  by (simp add: swirlGrain_def Let_def)

lemma swirlPhase_fields:
  "dropElapsed (swirlPhase dt b) = dropElapsed b"
  "dropping (swirlPhase dt b) = dropping b"
  "length (grains (swirlPhase dt b)) = length (grains b)"
  "settledCount (swirlPhase dt b) = settledCount b"
  "dissolveActive (swirlPhase dt b) = dissolveActive b"
  "bottomYWorld (swirlPhase dt b) = bottomYWorld b"
  "posY (swirlPhase dt b) = posY b"
  by (simp_all add: swirlPhase_def Let_def settledCount_def filter_map o_def swirlGrain_settled)

lemma dissolvePhase_fields:
  "dropElapsed (dissolvePhase dt b) = dropElapsed b"
  "dropping (dissolvePhase dt b) = dropping b"
  "grains (dissolvePhase dt b) = grains b"
  "settledCount (dissolvePhase dt b) = settledCount b"
  "bottomYWorld (dissolvePhase dt b) = bottomYWorld b"
  "posY (dissolvePhase dt b) = posY b"
  by (simp_all add: dissolvePhase_def Let_def settledCount_def)









text \<open>The tick keeps settled grains at rest, and a fresh batch has no settled grain.\<close>

lemma swirlGrain_rest:
  assumes "gy g = (bottomYWorld b + 1 / 100) - posY b" and "gvy g = 0"
  shows "gy (swirlGrain dt b st inw dr g) = (bottomYWorld b + 1 / 100) - posY b \<and>
         gvy (swirlGrain dt b st inw dr g) = 0"
  using assms by (simp add: swirlGrain_def Let_def)

lemma settledAtRest_dropPhase:
  assumes "settledAtRest b"
  shows "settledAtRest (dropPhase dt b)"
  unfolding settledAtRest_def
proof (intro ballI impI)
  fix g'
  assume "g' \<in> set (grains (dropPhase dt b))" and s: "settled g'"
  then obtain g where g: "g \<in> set (grains b)" and g': "g' = fst (dropGrain dt b g)"
    by (auto simp: dropPhase_def Let_def)
  have "snd (dropGrain dt b g)"
  proof (cases "settled g")
    case True
    with assms g show ?thesis by (simp add: settledAtRest_def dropGrain_rest_hits)
  next
    case False
    with s g' show ?thesis by (simp add: dropGrain_settled)
  qed
  from dropGrain_hit_rest [OF this] g'
  show "gy g' = (bottomYWorld (dropPhase dt b) + 1 / 100) - posY (dropPhase dt b) \<and> gvy g' = 0"
    by (simp add: dropPhase_fields)
qed

lemma settledAtRest_swirlPhase:
  assumes "settledAtRest b"
  shows "settledAtRest (swirlPhase dt b)"
  unfolding settledAtRest_def
proof (intro ballI impI)
  fix g'
  assume "g' \<in> set (grains (swirlPhase dt b))" and s: "settled g'"
  then obtain g st inw dr where g: "g \<in> set (grains b)" and g': "g' = swirlGrain dt b st inw dr g"
    by (auto simp: swirlPhase_def Let_def)
  with s have "settled g" by (simp add: swirlGrain_settled)
  with assms g have "gy g = (bottomYWorld b + 1 / 100) - posY b" and "gvy g = 0"
    by (simp_all add: settledAtRest_def)
  from swirlGrain_rest [OF this] g'
  show "gy g' = (bottomYWorld (swirlPhase dt b) + 1 / 100) - posY (swirlPhase dt b) \<and> gvy g' = 0"
    by (simp add: swirlPhase_fields)
qed

lemma settledAtRest_dissolvePhase:
  "settledAtRest b \<Longrightarrow> settledAtRest (dissolvePhase dt b)"
  by (simp add: settledAtRest_def dissolvePhase_fields)

lemma settledAtRest_updateBatch:
  "settledAtRest b \<Longrightarrow> settledAtRest (updateBatch dt b)"
  by (simp add: updateBatch_def Let_def settledAtRest_dropPhase settledAtRest_swirlPhase
      settledAtRest_dissolvePhase)

lemma settledAtRest_fresh: "\<forall>g \<in> set (grains b). \<not> settled g \<Longrightarrow> settledAtRest b"
  by (simp add: settledAtRest_def)

end
